theory Spec2Isabelle
  imports Main
begin

section \<open>Requests, replies and the document store\<close>

text \<open>
  A stored reference is an \<open>ObjectId\<close>; \<open>toString\<close> gives the hexadecimal string it
  prints as. A route or query parameter is a string: one identifier has several
  well-formed spellings (upper-case and lower-case digits), so a parameter is never
  compared with a stored reference before it is cast. The requester's identity
  \<open>req.user._id\<close> is the stored identifier of the authenticated user.
\<close>

datatype oid = ObjectId string

fun toString :: "oid \<Rightarrow> string" where
  "toString (ObjectId h) = h"

text \<open>
  \<open>throw new APIError(code, message)\<close> is the left summand of a reply,
  \<open>res.status(n).json(new APIResponse(code, data, message))\<close> the right one.
\<close>

datatype APIError = APIError nat string

datatype 'd APIResponse = APIResponse nat 'd string

type_synonym 'd reply = "APIError + nat \<times> 'd APIResponse"

subsection \<open>JavaScript strings and truthiness\<close>

text \<open>
  \<open>String.prototype.trim\<close> strips white space and line terminators from both ends. On
  code units below 256 these are TAB, LF, VT, FF, CR, SPACE and NBSP.
\<close>

definition isWhiteSpace :: "char \<Rightarrow> bool" where
  "isWhiteSpace c =
     (c = CHR 0x09 \<or> c = CHR 0x0A \<or> c = CHR 0x0B \<or> c = CHR 0x0C \<or> c = CHR 0x0D
      \<or> c = CHR 0x20 \<or> c = CHR 0xA0)"

definition trim :: "string \<Rightarrow> string" where
  "trim s = rev (dropWhile isWhiteSpace (rev (dropWhile isWhiteSpace s)))"

text \<open>
  A body field is absent (\<open>undefined\<close>) or a string. \<open>!x\<close> holds for \<open>undefined\<close>
  and for the empty string.
\<close>

definition falsy :: "string option \<Rightarrow> bool" where
  "falsy x = (case x of None \<Rightarrow> True | Some t \<Rightarrow> t = [])"

text \<open>The guard \<open>!x || x.trim() === ""\<close> of every required text field.\<close>

definition blank :: "string option \<Rightarrow> bool" where
  "blank x = (case x of None \<Rightarrow> True | Some t \<Rightarrow> t = [] \<or> trim t = [])"

text \<open>\<open>x || d\<close> for an optional string.\<close>

definition orElse :: "string option \<Rightarrow> string \<Rightarrow> string" where
  "orElse x d = (case x of None \<Rightarrow> d | Some t \<Rightarrow> if t = [] then d else t)"

subsection \<open>Documents\<close>

text \<open>
  One record per collection, with the fields the controllers read or write. The schema
  files are not among the sources; \<open>createdAt\<close> and \<open>updatedAt\<close> are the timestamps
  the pipelines sort on and project. They are set from the clock when a document is
  created, and \<open>updatedAt\<close> again on every update, as a schema with timestamps does.
\<close>

record user =
  u_id :: oid
  u_username :: string
  u_fullName :: string
  u_avatar :: string

record subscription =
  sub_channel :: oid
  sub_subscriber :: oid

record tweet =
  t_id :: oid
  t_content :: string
  t_owner :: oid
  t_createdAt :: nat
  t_updatedAt :: nat

record playlist =
  p_id :: oid
  p_name :: string
  p_description :: string
  p_owner :: oid
  p_videos :: "oid list"
  p_createdAt :: nat
  p_updatedAt :: nat

text \<open>A like refers to one of a video, a comment or a tweet; it has no boolean field.\<close>

record like =
  l_id :: oid
  l_video :: "oid option"
  l_comment :: "oid option"
  l_tweet :: "oid option"
  l_likedBy :: oid
  l_createdAt :: nat
  l_updatedAt :: nat

record comment =
  c_id :: oid
  c_content :: string
  c_video :: oid
  c_owner :: oid
  c_createdAt :: nat
  c_updatedAt :: nat

record video =
  v_id :: oid
  v_videoFile :: string
  v_thumbnail :: string
  v_title :: string
  v_description :: string
  v_duration :: nat
  v_views :: nat
  v_isPublished :: bool
  v_owner :: oid
  v_createdAt :: nat
  v_updatedAt :: nat

text \<open>Each collection is the list of its documents in storage order.\<close>

record store =
  users :: "user list"
  subscriptions :: "subscription list"
  tweets :: "tweet list"
  playlists :: "playlist list"
  likes :: "like list"
  comments :: "comment list"
  videos :: "video list"

subsection \<open>What a handler gets from outside the repository\<close>

text \<open>
  \<open>isValidObjectId\<close> is the driver's format check and \<open>castObjectId\<close> its cast of a
  string to the identifier it spells: \<open>new mongoose.Types.ObjectId(x)\<close> where the source
  writes it, and the cast every model method applies to the string values of its filter
  and its update. \<open>newObjectId\<close> is the identifier the driver gives to a document
  created during the request, \<open>now\<close> the clock reading the timestamps take,
  \<open>uploadOnCloudinary\<close> the upload helper (the stored asset, or nothing on failure)
  and \<open>searchVideos\<close> the text index behind \<open>$search\<close>.
\<close>

record asset =
  a_url :: string
  a_duration :: nat

record env =
  isValidObjectId :: "string \<Rightarrow> bool"
  castObjectId :: "string \<Rightarrow> oid"
  newObjectId :: oid
  now :: nat
  uploadOnCloudinary :: "string \<Rightarrow> asset option"
  searchVideos :: "string \<Rightarrow> video list \<Rightarrow> video list"

subsection \<open>Collection operations\<close>

text \<open>
  The operations take an \<open>ObjectId\<close>. Where a handler passes a route parameter to
  \<open>findById\<close>, \<open>findByIdAndUpdate\<close>, \<open>findByIdAndDelete\<close>, \<open>findOne\<close> or \<open>create\<close>,
  the cast the model applies is written at the call.
\<close>

definition findOne :: "('a \<Rightarrow> bool) \<Rightarrow> 'a list \<Rightarrow> 'a option" where
  "findOne q ds = find q ds"

definition findById :: "('a \<Rightarrow> oid) \<Rightarrow> oid \<Rightarrow> 'a list \<Rightarrow> 'a option" where
  "findById idf i ds = find (\<lambda>d. idf d = i) ds"

text \<open>
  \<open>findByIdAndUpdate(id, update, {new: true})\<close>: the first document with the identifier
  is replaced, and the replaced document is the result (\<open>null\<close> when there is none).
\<close>

fun findByIdAndUpdate ::
  "('a \<Rightarrow> oid) \<Rightarrow> oid \<Rightarrow> ('a \<Rightarrow> 'a) \<Rightarrow> 'a list \<Rightarrow> 'a option \<times> 'a list" where
  "findByIdAndUpdate idf i f [] = (None, [])"
| "findByIdAndUpdate idf i f (d # ds) =
     (if idf d = i then (Some (f d), f d # ds)
      else (case findByIdAndUpdate idf i f ds of (r, ds') \<Rightarrow> (r, d # ds')))"

fun findByIdAndDelete :: "('a \<Rightarrow> oid) \<Rightarrow> oid \<Rightarrow> 'a list \<Rightarrow> 'a list" where
  "findByIdAndDelete idf i [] = []"
| "findByIdAndDelete idf i (d # ds) =
     (if idf d = i then ds else d # findByIdAndDelete idf i ds)"

text \<open>\<open>Model.create(doc)\<close> appends the document and returns it.\<close>

definition create :: "'a \<Rightarrow> 'a list \<Rightarrow> 'a option \<times> 'a list" where
  "create d ds = (Some d, ds @ [d])"

section \<open>like.controller.js\<close>

record like_data =
  isLiked :: bool

text \<open>
  The three filters \<open>{video | comment | tweet: id, likedBy: req.user._id}\<close>, on the
  identifier the route string is cast to.
\<close>

definition videoLikeOf :: "oid \<Rightarrow> oid \<Rightarrow> like \<Rightarrow> bool" where
  "videoLikeOf videoId uid l = (l_video l = Some videoId \<and> l_likedBy l = uid)"

definition commentLikeOf :: "oid \<Rightarrow> oid \<Rightarrow> like \<Rightarrow> bool" where
  "commentLikeOf commentId uid l = (l_comment l = Some commentId \<and> l_likedBy l = uid)"

definition tweetLikeOf :: "oid \<Rightarrow> oid \<Rightarrow> like \<Rightarrow> bool" where
  "tweetLikeOf tweetId uid l = (l_tweet l = Some tweetId \<and> l_likedBy l = uid)"

text \<open>The document \<open>Like.create\<close> stores, its target cast to an \<open>ObjectId\<close>.\<close>

definition newVideoLike :: "env \<Rightarrow> oid \<Rightarrow> string \<Rightarrow> like" where
  "newVideoLike e uid videoId =
     \<lparr>l_id = newObjectId e, l_video = Some (castObjectId e videoId), l_comment = None, l_tweet = None,
      l_likedBy = uid, l_createdAt = now e, l_updatedAt = now e\<rparr>"

definition newCommentLike :: "env \<Rightarrow> oid \<Rightarrow> string \<Rightarrow> like" where
  "newCommentLike e uid commentId =
     \<lparr>l_id = newObjectId e, l_video = None, l_comment = Some (castObjectId e commentId), l_tweet = None,
      l_likedBy = uid, l_createdAt = now e, l_updatedAt = now e\<rparr>"

definition newTweetLike :: "env \<Rightarrow> oid \<Rightarrow> string \<Rightarrow> like" where
  "newTweetLike e uid tweetId =
     \<lparr>l_id = newObjectId e, l_video = None, l_comment = None, l_tweet = Some (castObjectId e tweetId),
      l_likedBy = uid, l_createdAt = now e, l_updatedAt = now e\<rparr>"

definition toggleVideoLike :: "env \<Rightarrow> oid \<Rightarrow> string \<Rightarrow> store \<Rightarrow> like_data reply \<times> store" where
  "toggleVideoLike e uid videoId s =
     (if \<not> isValidObjectId e videoId then (Inl (APIError 400 ''Invalid video ID''), s)
      else case findOne (videoLikeOf (castObjectId e videoId) uid) (likes s) of
        Some existingLike \<Rightarrow>
          (Inr (200, APIResponse 200 \<lparr>isLiked = False\<rparr> ''Video unliked successfully''),
           s\<lparr>likes := findByIdAndDelete l_id (l_id existingLike) (likes s)\<rparr>)
      | None \<Rightarrow>
          (Inr (201, APIResponse 201 \<lparr>isLiked = True\<rparr> ''Video liked successfully''),
           s\<lparr>likes := snd (create (newVideoLike e uid videoId) (likes s))\<rparr>))"

definition toggleCommentLike :: "env \<Rightarrow> oid \<Rightarrow> string \<Rightarrow> store \<Rightarrow> like_data reply \<times> store" where
  "toggleCommentLike e uid commentId s =
     (if \<not> isValidObjectId e commentId then (Inl (APIError 400 ''Invalid comment ID''), s)
      else case findOne (commentLikeOf (castObjectId e commentId) uid) (likes s) of
        Some existingLike \<Rightarrow>
          (Inr (200, APIResponse 200 \<lparr>isLiked = False\<rparr> ''Comment unliked successfully''),
           s\<lparr>likes := findByIdAndDelete l_id (l_id existingLike) (likes s)\<rparr>)
      | None \<Rightarrow>
          (Inr (201, APIResponse 201 \<lparr>isLiked = True\<rparr> ''Comment liked successfully''),
           s\<lparr>likes := snd (create (newCommentLike e uid commentId) (likes s))\<rparr>))"

definition toggleTweetLike :: "env \<Rightarrow> oid \<Rightarrow> string \<Rightarrow> store \<Rightarrow> like_data reply \<times> store" where
  "toggleTweetLike e uid tweetId s =
     (if \<not> isValidObjectId e tweetId then (Inl (APIError 400 ''Invalid tweet ID''), s)
      else case findOne (tweetLikeOf (castObjectId e tweetId) uid) (likes s) of
        Some existingLike \<Rightarrow>
          (Inr (200, APIResponse 200 \<lparr>isLiked = False\<rparr> ''Tweet unliked successfully''),
           s\<lparr>likes := findByIdAndDelete l_id (l_id existingLike) (likes s)\<rparr>)
      | None \<Rightarrow>
          (Inr (201, APIResponse 201 \<lparr>isLiked = True\<rparr> ''Tweet liked successfully''),
           s\<lparr>likes := snd (create (newTweetLike e uid tweetId) (likes s))\<rparr>))"

section \<open>Aggregation stages shared by the read models\<close>

text \<open>
  \<open>$lookup\<close> into \<open>users\<close> with \<open>$project {username, fullName, avatar}\<close>; \<open>_id\<close>
  stays in a projection unless it is excluded.
\<close>

record owner_view =
  o_id :: oid
  o_username :: string
  o_fullName :: string
  o_avatar :: string

definition projectOwner :: "user \<Rightarrow> owner_view" where
  "projectOwner u =
     \<lparr>o_id = u_id u, o_username = u_username u, o_fullName = u_fullName u,
      o_avatar = u_avatar u\<rparr>"

definition lookupOwner :: "store \<Rightarrow> oid \<Rightarrow> owner_view list" where
  "lookupOwner s ownerId = map projectOwner (filter (\<lambda>u. u_id u = ownerId) (users s))"

text \<open>\<open>$first\<close>: the first element of an array, missing when the array is empty.\<close>

definition first :: "'a list \<Rightarrow> 'a option" where
  "first xs = (case xs of [] \<Rightarrow> None | x # _ \<Rightarrow> Some x)"

text \<open>
  \<open>$sort\<close> as an insertion sort on the order \<open>le\<close>; \<open>{createdAt: -1}\<close> is the order
  in which the later document comes first.
\<close>

fun insertBy :: "('a \<Rightarrow> 'a \<Rightarrow> bool) \<Rightarrow> 'a \<Rightarrow> 'a list \<Rightarrow> 'a list" where
  "insertBy le x [] = [x]"
| "insertBy le x (y # ys) = (if le x y then x # y # ys else y # insertBy le x ys)"

definition sortStage :: "('a \<Rightarrow> 'a \<Rightarrow> bool) \<Rightarrow> 'a list \<Rightarrow> 'a list" where
  "sortStage le xs = foldr (insertBy le) xs []"

definition descending :: "('a \<Rightarrow> nat) \<Rightarrow> 'a \<Rightarrow> 'a \<Rightarrow> bool" where
  "descending key a b = (key b \<le> key a)"

text \<open>
  Modelled from the spec: the pagination helper behind \<open>aggregatePaginate\<close> is a plugin
  of the schema and not among the sources. It cuts page \<open>page\<close> of \<open>limit\<close> documents
  out of the pipeline's result and reports the total. \<open>page\<close> defaults to 1 and
  \<open>limit\<close> to 10.
\<close>

record 'a paginated =
  docs :: "'a list"
  totalDocs :: nat
  pg_limit :: nat
  pg_page :: nat

definition aggregatePaginate :: "'a list \<Rightarrow> nat option \<Rightarrow> nat option \<Rightarrow> 'a paginated" where
  "aggregatePaginate xs page limit =
     (let p = (case page of None \<Rightarrow> 1 | Some n \<Rightarrow> n);
          l = (case limit of None \<Rightarrow> 10 | Some n \<Rightarrow> n)
      in \<lparr>docs = take l (drop ((p - 1) * l) xs), totalDocs = length xs, pg_limit = l,
          pg_page = p\<rparr>)"

section \<open>The tweet controller\<close>

definition createTweet :: "env \<Rightarrow> oid \<Rightarrow> string option \<Rightarrow> store \<Rightarrow> tweet reply \<times> store" where
  "createTweet e uid content s =
     (if blank content then (Inl (APIError 400 ''Tweet content is required''), s)
      else case create \<lparr>t_id = newObjectId e, t_content = the content, t_owner = uid,
                        t_createdAt = now e, t_updatedAt = now e\<rparr> (tweets s) of
        (None, ts) \<Rightarrow> (Inl (APIError 500 ''Failed to create tweet''), s\<lparr>tweets := ts\<rparr>)
      | (Some tweet, ts) \<Rightarrow>
          (Inr (201, APIResponse 201 tweet ''Tweet created successfully''), s\<lparr>tweets := ts\<rparr>))"

record tweet_view =
  tv_id :: oid
  tv_content :: string
  tv_owner :: "owner_view option"
  tv_likesCount :: nat
  tv_createdAt :: nat

definition tweetView :: "store \<Rightarrow> tweet \<Rightarrow> tweet_view" where
  "tweetView s t =
     \<lparr>tv_id = t_id t, tv_content = t_content t, tv_owner = first (lookupOwner s (t_owner t)),
      tv_likesCount = length (filter (\<lambda>l. l_tweet l = Some (t_id t)) (likes s)),
      tv_createdAt = t_createdAt t\<rparr>"

definition getUserTweets :: "env \<Rightarrow> string \<Rightarrow> store \<Rightarrow> tweet_view list reply \<times> store" where
  "getUserTweets e userId s =
     (if \<not> isValidObjectId e userId then (Inl (APIError 400 ''Invalid user ID''), s)
      else
        (Inr (200, APIResponse 200
            (sortStage (descending tv_createdAt)
               (map (tweetView s) (filter (\<lambda>t. t_owner t = castObjectId e userId) (tweets s))))
            ''Tweets fetched successfully''), s))"

definition updateTweet ::
  "env \<Rightarrow> oid \<Rightarrow> string \<Rightarrow> string option \<Rightarrow> store \<Rightarrow> tweet option reply \<times> store" where
  "updateTweet e uid tweetId content s =
     (if blank content then (Inl (APIError 400 ''Tweet content is required''), s)
      else if \<not> isValidObjectId e tweetId then (Inl (APIError 400 ''Invalid tweet ID''), s)
      else case findById t_id (castObjectId e tweetId) (tweets s) of
        None \<Rightarrow> (Inl (APIError 404 ''Tweet not found''), s)
      | Some tweet \<Rightarrow>
          if toString (t_owner tweet) \<noteq> toString uid
          then (Inl (APIError 403 ''You are not authorized to update this tweet''), s)
          else case findByIdAndUpdate t_id (castObjectId e tweetId)
                      (\<lambda>t. t\<lparr>t_content := the content, t_updatedAt := now e\<rparr>) (tweets s) of
            (updatedTweet, ts) \<Rightarrow>
              (Inr (200, APIResponse 200 updatedTweet ''Tweet updated successfully''),
               s\<lparr>tweets := ts\<rparr>))"

definition deleteTweet :: "env \<Rightarrow> oid \<Rightarrow> string \<Rightarrow> store \<Rightarrow> unit reply \<times> store" where
  "deleteTweet e uid tweetId s =
     (if \<not> isValidObjectId e tweetId then (Inl (APIError 400 ''Invalid tweet ID''), s)
      else case findById t_id (castObjectId e tweetId) (tweets s) of
        None \<Rightarrow> (Inl (APIError 404 ''Tweet not found''), s)
      | Some tweet \<Rightarrow>
          if toString (t_owner tweet) \<noteq> toString uid
          then (Inl (APIError 403 ''You are not authorized to delete this tweet''), s)
          else (Inr (200, APIResponse 200 () ''Tweet deleted successfully''),
                s\<lparr>tweets := findByIdAndDelete t_id (castObjectId e tweetId) (tweets s)\<rparr>))"

section \<open>comment.controller.js\<close>

record comment_view =
  cv_id :: oid
  cv_content :: string
  cv_video :: oid
  cv_owner :: "owner_view option"
  cv_createdAt :: nat
  cv_updatedAt :: nat

definition commentView :: "store \<Rightarrow> comment \<Rightarrow> comment_view" where
  "commentView s c =
     \<lparr>cv_id = c_id c, cv_content = c_content c, cv_video = c_video c,
      cv_owner = first (lookupOwner s (c_owner c)), cv_createdAt = c_createdAt c,
      cv_updatedAt = c_updatedAt c\<rparr>"

definition getVideoComments ::
  "env \<Rightarrow> string \<Rightarrow> nat option \<Rightarrow> nat option \<Rightarrow> store \<Rightarrow> comment_view paginated reply \<times> store" where
  "getVideoComments e videoId page limit s =
     (if \<not> isValidObjectId e videoId then (Inl (APIError 400 ''Invalid video ID''), s)
      else
        (Inr (200, APIResponse 200
            (aggregatePaginate
               (sortStage (descending cv_createdAt)
                  (map (commentView s) (filter (\<lambda>c. c_video c = castObjectId e videoId) (comments s))))
               page limit)
            ''Comments fetched successfully''), s))"

definition addComment ::
  "env \<Rightarrow> oid \<Rightarrow> string \<Rightarrow> string option \<Rightarrow> store \<Rightarrow> comment reply \<times> store" where
  "addComment e uid videoId content s =
     (if blank content then (Inl (APIError 400 ''Comment content is required''), s)
      else if \<not> isValidObjectId e videoId then (Inl (APIError 400 ''Invalid video ID''), s)
      else case create \<lparr>c_id = newObjectId e, c_content = the content, c_video = castObjectId e videoId,
                        c_owner = uid, c_createdAt = now e, c_updatedAt = now e\<rparr>
                  (comments s) of
        (None, cs) \<Rightarrow> (Inl (APIError 500 ''Failed to add comment''), s\<lparr>comments := cs\<rparr>)
      | (Some comment, cs) \<Rightarrow>
          (Inr (201, APIResponse 201 comment ''Comment added successfully''),
           s\<lparr>comments := cs\<rparr>))"

definition updateComment ::
  "env \<Rightarrow> oid \<Rightarrow> string \<Rightarrow> string option \<Rightarrow> store \<Rightarrow> comment option reply \<times> store" where
  "updateComment e uid commentId content s =
     (if blank content then (Inl (APIError 400 ''Comment content is required''), s)
      else if \<not> isValidObjectId e commentId
      then (Inl (APIError 400 ''Invalid comment ID''), s)
      else case findById c_id (castObjectId e commentId) (comments s) of
        None \<Rightarrow> (Inl (APIError 404 ''Comment not found''), s)
      | Some comment \<Rightarrow>
          if toString (c_owner comment) \<noteq> toString uid
          then (Inl (APIError 403 ''You are not authorized to update this comment''), s)
          else case findByIdAndUpdate c_id (castObjectId e commentId)
                      (\<lambda>c. c\<lparr>c_content := the content, c_updatedAt := now e\<rparr>)
                      (comments s) of
            (updatedComment, cs) \<Rightarrow>
              (Inr (200, APIResponse 200 updatedComment ''Comment updated successfully''),
               s\<lparr>comments := cs\<rparr>))"

definition deleteComment :: "env \<Rightarrow> oid \<Rightarrow> string \<Rightarrow> store \<Rightarrow> unit reply \<times> store" where
  "deleteComment e uid commentId s =
     (if \<not> isValidObjectId e commentId
      then (Inl (APIError 400 ''Invalid comment ID''), s)
      else case findById c_id (castObjectId e commentId) (comments s) of
        None \<Rightarrow> (Inl (APIError 404 ''Comment not found''), s)
      | Some comment \<Rightarrow>
          if toString (c_owner comment) \<noteq> toString uid
          then (Inl (APIError 403 ''You are not authorized to delete this comment''), s)
          else (Inr (200, APIResponse 200 () ''Comment deleted successfully''),
                s\<lparr>comments := findByIdAndDelete c_id (castObjectId e commentId) (comments s)\<rparr>))"

section \<open>playlist.controller.js\<close>

definition createPlaylist ::
  "env \<Rightarrow> oid \<Rightarrow> string option \<Rightarrow> string option \<Rightarrow> store \<Rightarrow> playlist reply \<times> store" where
  "createPlaylist e uid name description s =
     (if blank name then (Inl (APIError 400 ''Playlist name is required''), s)
      else case create \<lparr>p_id = newObjectId e, p_name = the name,
                        p_description = orElse description [], p_owner = uid, p_videos = [],
                        p_createdAt = now e, p_updatedAt = now e\<rparr> (playlists s) of
        (None, ps) \<Rightarrow> (Inl (APIError 500 ''Failed to create playlist''), s\<lparr>playlists := ps\<rparr>)
      | (Some playlist, ps) \<Rightarrow>
          (Inr (201, APIResponse 201 playlist ''Playlist created successfully''),
           s\<lparr>playlists := ps\<rparr>))"

text \<open>
  \<open>$lookup\<close> from the array field \<open>videos\<close>: the videos whose \<open>_id\<close> occurs in the
  array, in the order of the \<open>videos\<close> collection.
\<close>

definition lookupVideos :: "store \<Rightarrow> oid list \<Rightarrow> video list" where
  "lookupVideos s ids = filter (\<lambda>v. v_id v \<in> set ids) (videos s)"

record playlist_summary =
  ps_id :: oid
  ps_name :: string
  ps_description :: string
  ps_totalVideos :: nat
  ps_totalViews :: nat
  ps_createdAt :: nat
  ps_updatedAt :: nat

definition playlistSummary :: "store \<Rightarrow> playlist \<Rightarrow> playlist_summary" where
  "playlistSummary s p =
     \<lparr>ps_id = p_id p, ps_name = p_name p, ps_description = p_description p,
      ps_totalVideos = length (lookupVideos s (p_videos p)),
      ps_totalViews = sum_list (map v_views (lookupVideos s (p_videos p))),
      ps_createdAt = p_createdAt p, ps_updatedAt = p_updatedAt p\<rparr>"

text \<open>The pipeline is \<open>$match\<close>, \<open>$lookup\<close>, \<open>$addFields\<close>, \<open>$project\<close>: it has no \<open>$sort\<close>.\<close>

definition getUserPlaylists :: "env \<Rightarrow> string \<Rightarrow> store \<Rightarrow> playlist_summary list reply \<times> store" where
  "getUserPlaylists e userId s =
     (if \<not> isValidObjectId e userId then (Inl (APIError 400 ''Invalid user ID''), s)
      else
        (Inr (200, APIResponse 200
            (map (playlistSummary s) (filter (\<lambda>p. p_owner p = castObjectId e userId) (playlists s)))
            ''User playlists fetched successfully''), s))"

text \<open>
  A video after the join with its owner: the document, and the value that replaces its
  \<open>owner\<close> field (missing when no user has that identifier).
\<close>

record video_joined =
  vj_video :: video
  vj_owner :: "owner_view option"

definition joinOwner :: "store \<Rightarrow> video \<Rightarrow> video_joined" where
  "joinOwner s v = \<lparr>vj_video = v, vj_owner = first (lookupOwner s (v_owner v))\<rparr>"

text \<open>
  The playlist with its joined fields: \<open>pd_videos\<close> and \<open>pd_owner\<close> are the values that
  replace \<open>videos\<close> and \<open>owner\<close> of the stored document \<open>pd_playlist\<close>.
\<close>

record playlist_detail =
  pd_playlist :: playlist
  pd_videos :: "video_joined list"
  pd_owner :: "owner_view option"
  pd_totalVideos :: nat
  pd_totalViews :: nat

definition playlistDetail :: "store \<Rightarrow> playlist \<Rightarrow> playlist_detail" where
  "playlistDetail s p =
     \<lparr>pd_playlist = p, pd_videos = map (joinOwner s) (lookupVideos s (p_videos p)),
      pd_owner = first (lookupOwner s (p_owner p)),
      pd_totalVideos = length (lookupVideos s (p_videos p)),
      pd_totalViews = sum_list (map v_views (lookupVideos s (p_videos p)))\<rparr>"

definition getPlaylistById :: "env \<Rightarrow> string \<Rightarrow> store \<Rightarrow> playlist_detail reply \<times> store" where
  "getPlaylistById e playlistId s =
     (if \<not> isValidObjectId e playlistId then (Inl (APIError 400 ''Invalid playlist ID''), s)
      else case map (playlistDetail s) (filter (\<lambda>p. p_id p = castObjectId e playlistId) (playlists s)) of
        [] \<Rightarrow> (Inl (APIError 404 ''Playlist not found''), s)
      | playlist0 # _ \<Rightarrow>
          (Inr (200, APIResponse 200 playlist0 ''Playlist fetched successfully''), s))"

text \<open>
  \<open>playlist.videos.includes(videoId)\<close> is given the route string itself: the array
  compares it with each stored identifier's \<open>toString()\<close>. The \<open>$push\<close> that follows
  stores the identifier the string is cast to.
\<close>

definition addVideoToPlaylist ::
  "env \<Rightarrow> oid \<Rightarrow> string \<Rightarrow> string \<Rightarrow> store \<Rightarrow> playlist option reply \<times> store" where
  "addVideoToPlaylist e uid playlistId videoId s =
     (if \<not> isValidObjectId e playlistId \<or> \<not> isValidObjectId e videoId
      then (Inl (APIError 400 ''Invalid playlist or video ID''), s)
      else case findById p_id (castObjectId e playlistId) (playlists s) of
        None \<Rightarrow> (Inl (APIError 404 ''Playlist not found''), s)
      | Some playlist \<Rightarrow>
          if toString (p_owner playlist) \<noteq> toString uid
          then (Inl (APIError 403 ''You are not authorized to update this playlist''), s)
          else if videoId \<in> set (map toString (p_videos playlist))
          then (Inl (APIError 400 ''Video already exists in playlist''), s)
          else case findByIdAndUpdate p_id (castObjectId e playlistId)
                      (\<lambda>p. p\<lparr>p_videos := p_videos p @ [castObjectId e videoId], p_updatedAt := now e\<rparr>)
                      (playlists s) of
            (updatedPlaylist, ps) \<Rightarrow>
              (Inr (200, APIResponse 200 updatedPlaylist
                  ''Video added to playlist successfully''), s\<lparr>playlists := ps\<rparr>))"

text \<open>
  \<open>$pull\<close> removes every element of the array that equals the value, which the model
  casts to an \<open>ObjectId\<close> as it does the value of \<open>$push\<close>.
\<close>

definition removeVideoFromPlaylist ::
  "env \<Rightarrow> oid \<Rightarrow> string \<Rightarrow> string \<Rightarrow> store \<Rightarrow> playlist option reply \<times> store" where
  "removeVideoFromPlaylist e uid playlistId videoId s =
     (if \<not> isValidObjectId e playlistId \<or> \<not> isValidObjectId e videoId
      then (Inl (APIError 400 ''Invalid playlist or video ID''), s)
      else case findById p_id (castObjectId e playlistId) (playlists s) of
        None \<Rightarrow> (Inl (APIError 404 ''Playlist not found''), s)
      | Some playlist \<Rightarrow>
          if toString (p_owner playlist) \<noteq> toString uid
          then (Inl (APIError 403 ''You are not authorized to update this playlist''), s)
          else case findByIdAndUpdate p_id (castObjectId e playlistId)
                      (\<lambda>p. p\<lparr>p_videos := filter (\<lambda>v. v \<noteq> castObjectId e videoId) (p_videos p),
                              p_updatedAt := now e\<rparr>)
                      (playlists s) of
            (updatedPlaylist, ps) \<Rightarrow>
              (Inr (200, APIResponse 200 updatedPlaylist
                  ''Video removed from playlist successfully''), s\<lparr>playlists := ps\<rparr>))"

definition deletePlaylist :: "env \<Rightarrow> oid \<Rightarrow> string \<Rightarrow> store \<Rightarrow> unit reply \<times> store" where
  "deletePlaylist e uid playlistId s =
     (if \<not> isValidObjectId e playlistId then (Inl (APIError 400 ''Invalid playlist ID''), s)
      else case findById p_id (castObjectId e playlistId) (playlists s) of
        None \<Rightarrow> (Inl (APIError 404 ''Playlist not found''), s)
      | Some playlist \<Rightarrow>
          if toString (p_owner playlist) \<noteq> toString uid
          then (Inl (APIError 403 ''You are not authorized to delete this playlist''), s)
          else (Inr (200, APIResponse 200 () ''Playlist deleted successfully''),
                s\<lparr>playlists := findByIdAndDelete p_id (castObjectId e playlistId) (playlists s)\<rparr>))"

definition updatePlaylist ::
  "env \<Rightarrow> oid \<Rightarrow> string \<Rightarrow> string option \<Rightarrow> string option \<Rightarrow> store
     \<Rightarrow> playlist option reply \<times> store" where
  "updatePlaylist e uid playlistId name description s =
     (if blank name then (Inl (APIError 400 ''Playlist name is required''), s)
      else if \<not> isValidObjectId e playlistId
      then (Inl (APIError 400 ''Invalid playlist ID''), s)
      else case findById p_id (castObjectId e playlistId) (playlists s) of
        None \<Rightarrow> (Inl (APIError 404 ''Playlist not found''), s)
      | Some playlist \<Rightarrow>
          if toString (p_owner playlist) \<noteq> toString uid
          then (Inl (APIError 403 ''You are not authorized to update this playlist''), s)
          else case findByIdAndUpdate p_id (castObjectId e playlistId)
                      (\<lambda>p. p\<lparr>p_name := the name,
                              p_description := orElse description (p_description playlist),
                              p_updatedAt := now e\<rparr>)
                      (playlists s) of
            (updatedPlaylist, ps) \<Rightarrow>
              (Inr (200, APIResponse 200 updatedPlaylist ''Playlist updated successfully''),
               s\<lparr>playlists := ps\<rparr>))"

section \<open>The video controller\<close>

subsection \<open>Sorting on a field named in the query\<close>

text \<open>
  The values of a video's fields as the storage layer compares them: a missing field
  sorts as null, before numbers, strings, identifiers, booleans and dates; strings and
  identifiers compare code unit by code unit.
\<close>

datatype bson = BMissing | BNum nat | BStr string | BOid oid | BBool bool | BDate nat

definition videoField :: "string \<Rightarrow> video \<Rightarrow> bson" where
  "videoField f v =
     (if f = ''_id'' then BOid (v_id v)
      else if f = ''videoFile'' then BStr (v_videoFile v)
      else if f = ''thumbnail'' then BStr (v_thumbnail v)
      else if f = ''title'' then BStr (v_title v)
      else if f = ''description'' then BStr (v_description v)
      else if f = ''duration'' then BNum (v_duration v)
      else if f = ''views'' then BNum (v_views v)
      else if f = ''isPublished'' then BBool (v_isPublished v)
      else if f = ''owner'' then BOid (v_owner v)
      else if f = ''createdAt'' then BDate (v_createdAt v)
      else if f = ''updatedAt'' then BDate (v_updatedAt v)
      else BMissing)"

fun bsonRank :: "bson \<Rightarrow> nat" where
  "bsonRank BMissing = 0"
| "bsonRank (BNum _) = 1"
| "bsonRank (BStr _) = 2"
| "bsonRank (BOid _) = 3"
| "bsonRank (BBool _) = 4"
| "bsonRank (BDate _) = 5"

fun strLe :: "string \<Rightarrow> string \<Rightarrow> bool" where
  "strLe [] _ = True"
| "strLe (_ # _) [] = False"
| "strLe (x # xs) (y # ys) =
     ((of_char x :: nat) < of_char y \<or> (x = y \<and> strLe xs ys))"

fun bsonLe :: "bson \<Rightarrow> bson \<Rightarrow> bool" where
  "bsonLe (BNum m) (BNum n) = (m \<le> n)"
| "bsonLe (BStr a) (BStr b) = strLe a b"
| "bsonLe (BOid a) (BOid b) = strLe (toString a) (toString b)"
| "bsonLe (BBool a) (BBool b) = (if a then b else True)"
| "bsonLe (BDate m) (BDate n) = (m \<le> n)"
| "bsonLe a b = (bsonRank a \<le> bsonRank b)"

text \<open>
  \<open>sortOptions[sortBy] = sortType === "asc" ? 1 : -1\<close> when both are given, else
  \<open>sortOptions.createdAt = -1\<close>.
\<close>

definition sortOptions :: "string option \<Rightarrow> string option \<Rightarrow> video \<Rightarrow> video \<Rightarrow> bool" where
  "sortOptions sortBy sortType =
     (if \<not> falsy sortBy \<and> \<not> falsy sortType
      then (if the sortType = ''asc''
            then (\<lambda>a b. bsonLe (videoField (the sortBy) a) (videoField (the sortBy) b))
            else (\<lambda>a b. bsonLe (videoField (the sortBy) b) (videoField (the sortBy) a)))
      else descending v_createdAt)"

subsection \<open>The handlers\<close>

text \<open>
  The pipeline is only built, not run, before the \<open>userId\<close> check can throw; the
  stages are applied here in the order in which they are pushed.
\<close>

definition getAllVideos ::
  "env \<Rightarrow> nat option \<Rightarrow> nat option \<Rightarrow> string option \<Rightarrow> string option \<Rightarrow> string option
     \<Rightarrow> string option \<Rightarrow> store \<Rightarrow> video_joined paginated reply \<times> store" where
  "getAllVideos e page limit query sortBy sortType userId s =
     (if \<not> falsy userId \<and> \<not> isValidObjectId e (the userId)
      then (Inl (APIError 400 ''Invalid user ID''), s)
      else
        let searched = (if \<not> falsy query then searchVideos e (the query) (videos s)
                        else videos s);
            owned = (if \<not> falsy userId then filter (\<lambda>v. v_owner v = castObjectId e (the userId)) searched
                     else searched);
            published = filter v_isPublished owned;
            sorted = sortStage (sortOptions sortBy sortType) published
        in (Inr (200, APIResponse 200
              (aggregatePaginate (map (joinOwner s) sorted) page limit)
              ''Videos fetched successfully''), s))"

text \<open>
  Both uploads are made before either result is looked at; they change nothing in the
  store.
\<close>

definition publishAVideo ::
  "env \<Rightarrow> oid \<Rightarrow> string option \<Rightarrow> string option \<Rightarrow> string option \<Rightarrow> string option \<Rightarrow> store
     \<Rightarrow> video reply \<times> store" where
  "publishAVideo e uid title description videoFileLocalPath thumbnailLocalPath s =
     (if blank title then (Inl (APIError 400 ''Video title is required''), s)
      else if falsy videoFileLocalPath then (Inl (APIError 400 ''Video file is required''), s)
      else if falsy thumbnailLocalPath then (Inl (APIError 400 ''Thumbnail is required''), s)
      else case uploadOnCloudinary e (the videoFileLocalPath) of
        None \<Rightarrow> (Inl (APIError 500 ''Failed to upload video file''), s)
      | Some videoFile \<Rightarrow>
         (case uploadOnCloudinary e (the thumbnailLocalPath) of
            None \<Rightarrow> (Inl (APIError 500 ''Failed to upload thumbnail''), s)
          | Some thumbnail \<Rightarrow>
             (case create \<lparr>v_id = newObjectId e, v_videoFile = a_url videoFile,
                           v_thumbnail = a_url thumbnail, v_title = the title,
                           v_description = orElse description [],
                           v_duration = a_duration videoFile, v_views = 0,
                           v_isPublished = True, v_owner = uid, v_createdAt = now e,
                           v_updatedAt = now e\<rparr> (videos s) of
                (None, vs) \<Rightarrow> (Inl (APIError 500 ''Failed to publish video''), s\<lparr>videos := vs\<rparr>)
              | (Some video, vs) \<Rightarrow>
                  (Inr (201, APIResponse 201 video ''Video published successfully''),
                   s\<lparr>videos := vs\<rparr>))))"

text \<open>
  The owner of a video as the detail pipeline joins it: the public fields, the number of
  subscriptions to the channel, and whether the requester (\<open>req.user?._id\<close>, possibly
  absent) is among the subscribers.
\<close>

record channel_view =
  ch_id :: oid
  ch_username :: string
  ch_fullName :: string
  ch_avatar :: string
  ch_subscribersCount :: nat
  ch_isSubscribed :: bool

definition isIn :: "oid option \<Rightarrow> oid list \<Rightarrow> bool" where
  "isIn requester ids = (case requester of None \<Rightarrow> False | Some u \<Rightarrow> u \<in> set ids)"

definition channelView :: "store \<Rightarrow> oid option \<Rightarrow> user \<Rightarrow> channel_view" where
  "channelView s requester u =
     (let subscribers = filter (\<lambda>b. sub_channel b = u_id u) (subscriptions s)
      in \<lparr>ch_id = u_id u, ch_username = u_username u, ch_fullName = u_fullName u,
          ch_avatar = u_avatar u, ch_subscribersCount = length subscribers,
          ch_isSubscribed = isIn requester (map sub_subscriber subscribers)\<rparr>)"

record video_detail =
  vd_id :: oid
  vd_videoFile :: string
  vd_thumbnail :: string
  vd_title :: string
  vd_description :: string
  vd_duration :: nat
  vd_views :: nat
  vd_owner :: "channel_view option"
  vd_likesCount :: nat
  vd_isLiked :: bool
  vd_createdAt :: nat
  vd_updatedAt :: nat

definition videoDetail :: "store \<Rightarrow> oid option \<Rightarrow> video \<Rightarrow> video_detail" where
  "videoDetail s requester v =
     (let likesOfVideo = filter (\<lambda>l. l_video l = Some (v_id v)) (likes s)
      in \<lparr>vd_id = v_id v, vd_videoFile = v_videoFile v, vd_thumbnail = v_thumbnail v,
          vd_title = v_title v, vd_description = v_description v,
          vd_duration = v_duration v, vd_views = v_views v,
          vd_owner = first (map (channelView s requester)
                              (filter (\<lambda>u. u_id u = v_owner v) (users s))),
          vd_likesCount = length likesOfVideo,
          vd_isLiked = isIn requester (map l_likedBy likesOfVideo),
          vd_createdAt = v_createdAt v, vd_updatedAt = v_updatedAt v\<rparr>)"

definition getVideoById ::
  "env \<Rightarrow> oid option \<Rightarrow> string \<Rightarrow> store \<Rightarrow> video_detail reply \<times> store" where
  "getVideoById e requester videoId s =
     (if \<not> isValidObjectId e videoId then (Inl (APIError 400 ''Invalid video ID''), s)
      else case map (videoDetail s requester) (filter (\<lambda>v. v_id v = castObjectId e videoId) (videos s)) of
        [] \<Rightarrow> (Inl (APIError 404 ''Video not found''), s)
      | video0 # _ \<Rightarrow>
          (Inr (200, APIResponse 200 video0 ''Video fetched successfully''),
           s\<lparr>videos := snd (findByIdAndUpdate v_id (castObjectId e videoId)
                               (\<lambda>v. v\<lparr>v_views := v_views v + 1, v_updatedAt := now e\<rparr>)
                               (videos s))\<rparr>))"

text \<open>\<open>thumbnail?.url || video.thumbnail\<close>.\<close>

definition urlOr :: "asset option \<Rightarrow> string \<Rightarrow> string" where
  "urlOr a d = (case a of None \<Rightarrow> d | Some x \<Rightarrow> if a_url x = [] then d else a_url x)"

definition updateVideo ::
  "env \<Rightarrow> oid \<Rightarrow> string \<Rightarrow> string option \<Rightarrow> string option \<Rightarrow> string option \<Rightarrow> store
     \<Rightarrow> video option reply \<times> store" where
  "updateVideo e uid videoId title description thumbnailLocalPath s =
     (if \<not> isValidObjectId e videoId then (Inl (APIError 400 ''Invalid video ID''), s)
      else if blank title then (Inl (APIError 400 ''Video title is required''), s)
      else case findById v_id (castObjectId e videoId) (videos s) of
        None \<Rightarrow> (Inl (APIError 404 ''Video not found''), s)
      | Some video \<Rightarrow>
          if toString (v_owner video) \<noteq> toString uid
          then (Inl (APIError 403 ''You are not authorized to update this video''), s)
          else if \<not> falsy thumbnailLocalPath
                  \<and> uploadOnCloudinary e (the thumbnailLocalPath) = None
          then (Inl (APIError 500 ''Failed to upload thumbnail''), s)
          else
            let thumbnail = (if \<not> falsy thumbnailLocalPath
                             then uploadOnCloudinary e (the thumbnailLocalPath) else None)
            in case findByIdAndUpdate v_id (castObjectId e videoId)
                      (\<lambda>v. v\<lparr>v_title := the title,
                              v_description := orElse description (v_description video),
                              v_thumbnail := urlOr thumbnail (v_thumbnail video),
                              v_updatedAt := now e\<rparr>)
                      (videos s) of
              (updatedVideo, vs) \<Rightarrow>
                (Inr (200, APIResponse 200 updatedVideo ''Video updated successfully''),
                 s\<lparr>videos := vs\<rparr>))"

definition deleteVideo :: "env \<Rightarrow> oid \<Rightarrow> string \<Rightarrow> store \<Rightarrow> unit reply \<times> store" where
  "deleteVideo e uid videoId s =
     (if \<not> isValidObjectId e videoId then (Inl (APIError 400 ''Invalid video ID''), s)
      else case findById v_id (castObjectId e videoId) (videos s) of
        None \<Rightarrow> (Inl (APIError 404 ''Video not found''), s)
      | Some video \<Rightarrow>
          if toString (v_owner video) \<noteq> toString uid
          then (Inl (APIError 403 ''You are not authorized to delete this video''), s)
          else (Inr (200, APIResponse 200 () ''Video deleted successfully''),
                s\<lparr>videos := findByIdAndDelete v_id (castObjectId e videoId) (videos s)\<rparr>))"

text \<open>
  The message reads \<open>updatedVideo.isPublished\<close>; were the update to return \<open>null\<close>, that
  read would fail and the request would end in the central error handler.
\<close>

definition togglePublishStatus ::
  "env \<Rightarrow> oid \<Rightarrow> string \<Rightarrow> store \<Rightarrow> video reply \<times> store" where
  "togglePublishStatus e uid videoId s =
     (if \<not> isValidObjectId e videoId then (Inl (APIError 400 ''Invalid video ID''), s)
      else case findById v_id (castObjectId e videoId) (videos s) of
        None \<Rightarrow> (Inl (APIError 404 ''Video not found''), s)
      | Some video \<Rightarrow>
          if toString (v_owner video) \<noteq> toString uid
          then (Inl (APIError 403 ''You are not authorized to update this video''), s)
          else case findByIdAndUpdate v_id (castObjectId e videoId)
                      (\<lambda>v. v\<lparr>v_isPublished := \<not> v_isPublished video, v_updatedAt := now e\<rparr>)
                      (videos s) of
            (None, vs) \<Rightarrow> (Inl (APIError 500 ''TypeError''), s\<lparr>videos := vs\<rparr>)
          | (Some updatedVideo, vs) \<Rightarrow>
              (Inr (200, APIResponse 200 updatedVideo
                  (''Video '' @ (if v_isPublished updatedVideo then ''published''
                                 else ''unpublished'') @ '' successfully'')),
               s\<lparr>videos := vs\<rparr>))"

section \<open>The liked videos of the requester, and the health check\<close>

record liked_video =
  lv_id :: oid
  lv_video :: "video_joined option"
  lv_createdAt :: nat

definition likedVideo :: "store \<Rightarrow> like \<Rightarrow> liked_video" where
  "likedVideo s l =
     \<lparr>lv_id = l_id l,
      lv_video = first (map (joinOwner s) (filter (\<lambda>v. Some (v_id v) = l_video l) (videos s))),
      lv_createdAt = l_createdAt l\<rparr>"

text \<open>
  \<open>new mongoose.Types.ObjectId(req.user._id)\<close> of the requester's identifier is that
  identifier.
\<close>

definition getLikedVideos :: "oid \<Rightarrow> store \<Rightarrow> liked_video list reply \<times> store" where
  "getLikedVideos uid s =
     (Inr (200, APIResponse 200
         (sortStage (descending lv_createdAt)
            (map (likedVideo s)
               (filter (\<lambda>l. l_likedBy l = uid \<and> l_video l \<noteq> None) (likes s))))
         ''Liked videos fetched successfully''), s)"

definition healthcheck :: "store \<Rightarrow> unit reply \<times> store" where
  "healthcheck s = (Inr (200, APIResponse 200 () ''OK''), s)"

section \<open>Concrete requests and stores\<close>

text \<open>
  The inputs the theorems below are evaluated on. The format check is instantiated with
  the 24 hexadecimal digits of an identifier's string form, in either case, and the cast
  with the identifier of the lower-case spelling.
\<close>

definition isHexDigit :: "char \<Rightarrow> bool" where
  "isHexDigit c = (c \<in> set ''0123456789abcdefABCDEF'')"

definition hexObjectId :: "string \<Rightarrow> bool" where
  "hexObjectId x = (length x = 24 \<and> list_all isHexDigit x)"

definition lowerHex :: "char \<Rightarrow> char" where
  "lowerHex c =
     (if c = CHR ''A'' then CHR ''a'' else if c = CHR ''B'' then CHR ''b''
      else if c = CHR ''C'' then CHR ''c'' else if c = CHR ''D'' then CHR ''d''
      else if c = CHR ''E'' then CHR ''e'' else if c = CHR ''F'' then CHR ''f'' else c)"

definition hexCast :: "string \<Rightarrow> oid" where
  "hexCast x = ObjectId (map lowerHex x)"

definition sampleEnv :: "string \<Rightarrow> nat \<Rightarrow> env" where
  "sampleEnv i t =
     \<lparr>isValidObjectId = hexObjectId, castObjectId = hexCast, newObjectId = ObjectId i,
      now = t, uploadOnCloudinary = (\<lambda>p. None), searchVideos = (\<lambda>q vs. vs)\<rparr>"

definition emptyStore :: store where
  "emptyStore =
     \<lparr>users = [], subscriptions = [], tweets = [], playlists = [], likes = [],
      comments = [], videos = []\<rparr>"

text \<open>Spellings of identifiers, and the two users.\<close>

definition aliceId :: string where "aliceId = ''64a0000000000000000000a1''"

definition bobId :: string where "bobId = ''64a0000000000000000000b2''"

definition alice :: oid where "alice = ObjectId aliceId"

definition bob :: oid where "bob = ObjectId bobId"

definition idOne :: string where "idOne = ''650000000000000000000001''"

definition idTwo :: string where "idTwo = ''650000000000000000000002''"

definition idThree :: string where "idThree = ''650000000000000000000003''"

definition idFour :: string where "idFour = ''650000000000000000000004''"

definition idFive :: string where "idFive = ''650000000000000000000005''"

definition idSix :: string where "idSix = ''650000000000000000000006''"

text \<open>An identifier with a letter among its digits, in lower case and in upper case.\<close>

definition idTen :: string where "idTen = ''65000000000000000000000a''"

definition idTenUpper :: string where "idTenUpper = ''65000000000000000000000A''"

text \<open>
  A store in which \<open>alice\<close> owns a tweet, a playlist holding one video, a comment and
  two videos.
\<close>

definition aliceTweet :: tweet where
  "aliceTweet =
     \<lparr>t_id = ObjectId idOne, t_content = ''hello'', t_owner = alice, t_createdAt = 1,
      t_updatedAt = 1\<rparr>"

definition alicePlaylist :: playlist where
  "alicePlaylist =
     \<lparr>p_id = ObjectId idTwo, p_name = ''mix'', p_description = [], p_owner = alice,
      p_videos = [ObjectId idFour], p_createdAt = 2, p_updatedAt = 2\<rparr>"

definition aliceComment :: comment where
  "aliceComment =
     \<lparr>c_id = ObjectId idThree, c_content = ''nice'', c_video = ObjectId idFour,
      c_owner = alice, c_createdAt = 3, c_updatedAt = 3\<rparr>"

definition aliceVideo :: video where
  "aliceVideo =
     \<lparr>v_id = ObjectId idFour, v_videoFile = ''v4.mp4'', v_thumbnail = ''v4.png'',
      v_title = ''first'', v_description = [], v_duration = 10, v_views = 7,
      v_isPublished = True, v_owner = alice, v_createdAt = 4, v_updatedAt = 4\<rparr>"

definition aliceVideo2 :: video where
  "aliceVideo2 =
     \<lparr>v_id = ObjectId idFive, v_videoFile = ''v5.mp4'', v_thumbnail = ''v5.png'',
      v_title = ''second'', v_description = [], v_duration = 20, v_views = 0,
      v_isPublished = True, v_owner = alice, v_createdAt = 5, v_updatedAt = 5\<rparr>"

definition aliceStore :: store where
  "aliceStore =
     \<lparr>users = [\<lparr>u_id = alice, u_username = ''alice'', u_fullName = ''Alice'',
                u_avatar = ''a.png''\<rparr>],
      subscriptions = [], tweets = [aliceTweet], playlists = [alicePlaylist], likes = [],
      comments = [aliceComment], videos = [aliceVideo, aliceVideo2]\<rparr>"

text \<open>
  A store in which \<open>alice\<close> owns the video \<open>idTen\<close>, viewed three times, and a playlist
  that holds it.
\<close>

definition tenVideo :: video where
  "tenVideo =
     \<lparr>v_id = ObjectId idTen, v_videoFile = ''va.mp4'', v_thumbnail = ''va.png'',
      v_title = ''tenth'', v_description = [], v_duration = 30, v_views = 3,
      v_isPublished = True, v_owner = alice, v_createdAt = 6, v_updatedAt = 6\<rparr>"

definition tenPlaylist :: playlist where
  "tenPlaylist =
     \<lparr>p_id = ObjectId idTen, p_name = ''ten'', p_description = [], p_owner = alice,
      p_videos = [ObjectId idTen], p_createdAt = 7, p_updatedAt = 7\<rparr>"

definition tenStore :: store where
  "tenStore =
     \<lparr>users = [], subscriptions = [], tweets = [], playlists = [tenPlaylist], likes = [],
      comments = [], videos = [tenVideo]\<rparr>"

text \<open>
  A store with two likes of the video \<open>idFour\<close> by \<open>alice\<close>, as two toggles that both
  found none would leave it.
\<close>

definition firstLike :: like where
  "firstLike =
     \<lparr>l_id = ObjectId idOne, l_video = Some (ObjectId idFour), l_comment = None,
      l_tweet = None, l_likedBy = alice, l_createdAt = 1, l_updatedAt = 1\<rparr>"

definition secondLike :: like where
  "secondLike =
     \<lparr>l_id = ObjectId idTwo, l_video = Some (ObjectId idFour), l_comment = None,
      l_tweet = None, l_likedBy = alice, l_createdAt = 2, l_updatedAt = 2\<rparr>"

definition twiceLikedStore :: store where
  "twiceLikedStore =
     \<lparr>users = [], subscriptions = [], tweets = [], playlists = [],
      likes = [firstLike, secondLike], comments = [], videos = []\<rparr>"

text \<open>
  The store after \<open>alice\<close> has created the playlists \<open>a\<close> and \<open>b\<close> and then the tweets
  \<open>x\<close> and \<open>y\<close>, at the clock readings 1 to 4.
\<close>

definition busyStore :: store where
  "busyStore =
     snd (createTweet (sampleEnv idFour 4) alice (Some ''y'')
       (snd (createTweet (sampleEnv idThree 3) alice (Some ''x'')
         (snd (createPlaylist (sampleEnv idTwo 2) alice (Some ''b'') None
           (snd (createPlaylist (sampleEnv idOne 1) alice (Some ''a'') None emptyStore)))))))"

section \<open>Properties\<close>

subsection \<open>Identifiers and the concrete inputs\<close>

lemma toString_eq_iff: "toString a = toString b \<longleftrightarrow> a = b"
  by (cases a; cases b) simp

lemma hex_ids:
  "hexObjectId aliceId" "hexObjectId bobId" "hexObjectId idOne" "hexObjectId idTwo"
  "hexObjectId idThree" "hexObjectId idFour" "hexObjectId idFive" "hexObjectId idSix"
  "hexObjectId idTen" "hexObjectId idTenUpper"
  by (simp_all add: hexObjectId_def isHexDigit_def aliceId_def bobId_def idOne_def idTwo_def
      idThree_def idFour_def idFive_def idSix_def idTen_def idTenUpper_def)

lemma not_hex: "\<not> hexObjectId ''not-an-id''" "\<not> hexObjectId []"
  by (simp_all add: hexObjectId_def)

lemma hexCast_ids:
  "hexCast aliceId = alice" "hexCast bobId = bob" "hexCast idOne = ObjectId idOne"
  "hexCast idTwo = ObjectId idTwo" "hexCast idThree = ObjectId idThree"
  "hexCast idFour = ObjectId idFour" "hexCast idFive = ObjectId idFive"
  "hexCast idSix = ObjectId idSix" "hexCast idTen = ObjectId idTen"
  "hexCast idTenUpper = ObjectId idTen"
  by (simp_all add: hexCast_def lowerHex_def alice_def bob_def aliceId_def bobId_def idOne_def
      idTwo_def idThree_def idFour_def idFive_def idSix_def idTen_def idTenUpper_def)

lemma spellings_differ: "idTenUpper \<noteq> idTen"
  by (simp add: idTen_def idTenUpper_def)

lemma sampleEnv_sel:
  "isValidObjectId (sampleEnv i t) = hexObjectId" "castObjectId (sampleEnv i t) = hexCast"
  "newObjectId (sampleEnv i t) = ObjectId i" "now (sampleEnv i t) = t"
  by (simp_all add: sampleEnv_def)

lemma emptyStore_sel:
  "tweets emptyStore = []" "playlists emptyStore = []" "comments emptyStore = []"
  "videos emptyStore = []" "users emptyStore = []" "subscriptions emptyStore = []"
  "likes emptyStore = []"
  by (simp_all add: emptyStore_def)

lemma aliceStore_sel:
  "tweets aliceStore = [aliceTweet]" "playlists aliceStore = [alicePlaylist]"
  "comments aliceStore = [aliceComment]" "videos aliceStore = [aliceVideo, aliceVideo2]"
  "likes aliceStore = []"
  by (simp_all add: aliceStore_def)

lemma alice_neq_bob: "alice \<noteq> bob" "bob \<noteq> alice"
  by (simp_all add: alice_def bob_def aliceId_def bobId_def)

lemma not_blank_hi: "\<not> blank (Some ''hi'')"
  by (simp add: blank_def trim_def isWhiteSpace_def)

lemma blank_spaces: "blank (Some ''   '')" "blank (Some [])" "blank None"
  by (simp_all add: blank_def trim_def isWhiteSpace_def)

subsection \<open>Like toggles\<close>

lemma findByIdAndDelete_distinct:
  "distinct (map idf ds) \<Longrightarrow> d \<in> set ds \<Longrightarrow> findByIdAndDelete idf (idf d) ds = remove1 d ds"
  by (induction ds) auto

lemma find_SomeD: "find q ds = Some d \<Longrightarrow> q d \<and> d \<in> set ds"
  by (auto simp: find_Some_iff)

lemma filter_remove1_found:
  "find q ds = Some d \<Longrightarrow> length (filter q ds) \<le> 1 \<Longrightarrow> filter q (remove1 d ds) = []"
proof (induction ds)
  case Nil
  then show ?case by simp
next
  case (Cons x ds)
  show ?case
  proof (cases "q x")
    case True
    with Cons.prems show ?thesis by simp
  next
    case False
    with Cons.prems have "find q ds = Some d" "q d" "length (filter q ds) \<le> 1"
      by (auto dest: find_SomeD)
    with False Cons.IH show ?thesis by auto
  qed
qed

lemma find_remove1_None:
  "find q ds = Some d \<Longrightarrow> length (filter q ds) \<le> 1 \<Longrightarrow> find q (remove1 d ds) = None"
  using filter_remove1_found[of q ds d] by (simp add: find_None_iff filter_empty_conv)

lemma find_append_new:
  "find q ds = None \<Longrightarrow> q d \<Longrightarrow> find q (ds @ [d]) = Some d"
  by (induction ds) (auto split: if_splits)

lemma findByIdAndDelete_append_new:
  "idf d \<notin> set (map idf ds) \<Longrightarrow> findByIdAndDelete idf (idf d) (ds @ [d]) = ds"
  by (induction ds) auto

lemma toggleVideoLike_absent:
  assumes "isValidObjectId e videoId"
    "findOne (videoLikeOf (castObjectId e videoId) uid) (likes s) = None"
  shows "toggleVideoLike e uid videoId s =
     (Inr (201, APIResponse 201 \<lparr>isLiked = True\<rparr> ''Video liked successfully''),
      s\<lparr>likes := likes s @ [newVideoLike e uid videoId]\<rparr>)"
  using assms by (simp add: toggleVideoLike_def create_def)

lemma toggleVideoLike_present:
  assumes "isValidObjectId e videoId" "distinct (map l_id (likes s))"
    "findOne (videoLikeOf (castObjectId e videoId) uid) (likes s) = Some l"
  shows "toggleVideoLike e uid videoId s =
     (Inr (200, APIResponse 200 \<lparr>isLiked = False\<rparr> ''Video unliked successfully''),
      s\<lparr>likes := remove1 l (likes s)\<rparr>)"
proof -
  from assms(3) have "l \<in> set (likes s)"
    by (auto simp: findOne_def find_Some_iff)
  with assms show ?thesis
    by (simp add: toggleVideoLike_def findByIdAndDelete_distinct)
qed

lemma toggleVideoLike_undo:
  assumes v: "isValidObjectId e1 t1" "isValidObjectId e2 t2"
    and same: "castObjectId e2 t2 = castObjectId e1 t1"
    and fresh: "findOne (videoLikeOf (castObjectId e1 t1) uid) (likes s) = None"
    and new: "newObjectId e1 \<notin> set (map l_id (likes s))"
  shows "toggleVideoLike e2 uid t2 (snd (toggleVideoLike e1 uid t1 s)) =
      (Inr (200, APIResponse 200 \<lparr>isLiked = False\<rparr> ''Video unliked successfully''), s)"
proof -
  let ?n = "newVideoLike e1 uid t1"
  have q: "videoLikeOf (castObjectId e1 t1) uid ?n"
    by (simp add: videoLikeOf_def newVideoLike_def)
  have i: "l_id ?n = newObjectId e1" by (simp add: newVideoLike_def)
  have f: "find (videoLikeOf (castObjectId e1 t1) uid) (likes s @ [?n]) = Some ?n"
    using fresh q by (simp add: findOne_def find_append_new)
  have d: "findByIdAndDelete l_id (l_id ?n) (likes s @ [?n]) = likes s"
    using new i findByIdAndDelete_append_new[of l_id ?n "likes s"] by simp
  have "snd (toggleVideoLike e1 uid t1 s) = s\<lparr>likes := likes s @ [?n]\<rparr>"
    using v fresh by (simp add: toggleVideoLike_absent)
  then show ?thesis
    using v same f d by (simp add: toggleVideoLike_def findOne_def)
qed

lemma toggleVideoLike_flips:
  assumes v: "isValidObjectId e videoId" and ids: "distinct (map l_id (likes s))"
    and one: "length (filter (videoLikeOf (castObjectId e videoId) uid) (likes s)) \<le> 1"
  shows "(findOne (videoLikeOf (castObjectId e videoId) uid)
            (likes (snd (toggleVideoLike e uid videoId s))) \<noteq> None)
       = (findOne (videoLikeOf (castObjectId e videoId) uid) (likes s) = None)"
proof (cases "findOne (videoLikeOf (castObjectId e videoId) uid) (likes s)")
  case None
  have "videoLikeOf (castObjectId e videoId) uid (newVideoLike e uid videoId)"
    by (simp add: videoLikeOf_def newVideoLike_def)
  with None v show ?thesis
    by (simp add: toggleVideoLike_absent) (simp add: findOne_def find_append_new)
next
  case (Some l)
  with one have "find (videoLikeOf (castObjectId e videoId) uid) (remove1 l (likes s)) = None"
    by (simp add: findOne_def find_remove1_None)
  with Some v ids show ?thesis
    by (simp add: toggleVideoLike_present) (simp add: findOne_def)
qed

lemma toggleVideoLike_spec:
  assumes v: "isValidObjectId e t1" "isValidObjectId e t2" "isValidObjectId e t3"
    and same: "castObjectId e t2 = castObjectId e t1" "castObjectId e t3 = castObjectId e t1"
    and ids: "distinct (map l_id (likes s))"
  shows
   "(findOne (videoLikeOf (castObjectId e t1) uid) (likes s) = None \<longrightarrow>
       toggleVideoLike e uid t1 s =
         (Inr (201, APIResponse 201 \<lparr>isLiked = True\<rparr> ''Video liked successfully''),
          s\<lparr>likes := likes s @ [newVideoLike e uid t1]\<rparr>)
       \<and> (newObjectId e \<notin> set (map l_id (likes s)) \<longrightarrow>
            toggleVideoLike (e\<lparr>newObjectId := n2, now := c2\<rparr>) uid t2
                (snd (toggleVideoLike e uid t1 s)) =
              (Inr (200, APIResponse 200 \<lparr>isLiked = False\<rparr> ''Video unliked successfully''), s)
            \<and> fst (toggleVideoLike (e\<lparr>newObjectId := n3, now := c3\<rparr>) uid t3
                     (snd (toggleVideoLike (e\<lparr>newObjectId := n2, now := c2\<rparr>) uid t2
                        (snd (toggleVideoLike e uid t1 s))))) =
              Inr (201, APIResponse 201 \<lparr>isLiked = True\<rparr> ''Video liked successfully'')))
    \<and> (\<forall>l. findOne (videoLikeOf (castObjectId e t1) uid) (likes s) = Some l \<longrightarrow>
          toggleVideoLike e uid t1 s =
            (Inr (200, APIResponse 200 \<lparr>isLiked = False\<rparr> ''Video unliked successfully''),
             s\<lparr>likes := remove1 l (likes s)\<rparr>)
          \<and> l \<notin> set (remove1 l (likes s)))
    \<and> (length (filter (videoLikeOf (castObjectId e t1) uid) (likes s)) \<le> 1 \<longrightarrow>
          (findOne (videoLikeOf (castObjectId e t1) uid)
             (likes (snd (toggleVideoLike e uid t1 s))) \<noteq> None)
            = (findOne (videoLikeOf (castObjectId e t1) uid) (likes s) = None))"
proof (intro conjI impI allI)
  let ?e2 = "e\<lparr>newObjectId := n2, now := c2\<rparr>" and ?e3 = "e\<lparr>newObjectId := n3, now := c3\<rparr>"
  have v2: "isValidObjectId ?e2 t2" and c2: "castObjectId ?e2 t2 = castObjectId e t1"
    and v3: "isValidObjectId ?e3 t3" and c3: "castObjectId ?e3 t3 = castObjectId e t1"
    using v same by simp_all
  assume fresh: "findOne (videoLikeOf (castObjectId e t1) uid) (likes s) = None"
  show "toggleVideoLike e uid t1 s =
         (Inr (201, APIResponse 201 \<lparr>isLiked = True\<rparr> ''Video liked successfully''),
          s\<lparr>likes := likes s @ [newVideoLike e uid t1]\<rparr>)"
    using v(1) fresh by (rule toggleVideoLike_absent)
  assume new: "newObjectId e \<notin> set (map l_id (likes s))"
  show undo: "toggleVideoLike ?e2 uid t2 (snd (toggleVideoLike e uid t1 s)) =
      (Inr (200, APIResponse 200 \<lparr>isLiked = False\<rparr> ''Video unliked successfully''), s)"
    using v(1) v2 c2 fresh new by (rule toggleVideoLike_undo)
  from fresh c3 have "findOne (videoLikeOf (castObjectId ?e3 t3) uid) (likes s) = None"
    by simp
  from toggleVideoLike_absent[OF v3 this]
  show "fst (toggleVideoLike ?e3 uid t3
                     (snd (toggleVideoLike ?e2 uid t2 (snd (toggleVideoLike e uid t1 s))))) =
              Inr (201, APIResponse 201 \<lparr>isLiked = True\<rparr> ''Video liked successfully'')"
    by (simp add: undo)
next
  fix l assume "findOne (videoLikeOf (castObjectId e t1) uid) (likes s) = Some l"
  then show "toggleVideoLike e uid t1 s =
            (Inr (200, APIResponse 200 \<lparr>isLiked = False\<rparr> ''Video unliked successfully''),
             s\<lparr>likes := remove1 l (likes s)\<rparr>)"
    using v(1) ids by (simp add: toggleVideoLike_present)
  from ids have "distinct (likes s)" by (rule distinct_map[THEN iffD1, THEN conjunct1])
  then show "l \<notin> set (remove1 l (likes s))" by simp
next
  assume "length (filter (videoLikeOf (castObjectId e t1) uid) (likes s)) \<le> 1"
  with v(1) ids show "(findOne (videoLikeOf (castObjectId e t1) uid)
             (likes (snd (toggleVideoLike e uid t1 s))) \<noteq> None)
            = (findOne (videoLikeOf (castObjectId e t1) uid) (likes s) = None)"
    by (rule toggleVideoLike_flips)
qed

lemma toggleCommentLike_absent:
  assumes "isValidObjectId e commentId"
    "findOne (commentLikeOf (castObjectId e commentId) uid) (likes s) = None"
  shows "toggleCommentLike e uid commentId s =
     (Inr (201, APIResponse 201 \<lparr>isLiked = True\<rparr> ''Comment liked successfully''),
      s\<lparr>likes := likes s @ [newCommentLike e uid commentId]\<rparr>)"
  using assms by (simp add: toggleCommentLike_def create_def)

lemma toggleCommentLike_present:
  assumes "isValidObjectId e commentId" "distinct (map l_id (likes s))"
    "findOne (commentLikeOf (castObjectId e commentId) uid) (likes s) = Some l"
  shows "toggleCommentLike e uid commentId s =
     (Inr (200, APIResponse 200 \<lparr>isLiked = False\<rparr> ''Comment unliked successfully''),
      s\<lparr>likes := remove1 l (likes s)\<rparr>)"
proof -
  from assms(3) have "l \<in> set (likes s)"
    by (auto simp: findOne_def find_Some_iff)
  with assms show ?thesis
    by (simp add: toggleCommentLike_def findByIdAndDelete_distinct)
qed

lemma toggleCommentLike_undo:
  assumes v: "isValidObjectId e1 t1" "isValidObjectId e2 t2"
    and same: "castObjectId e2 t2 = castObjectId e1 t1"
    and fresh: "findOne (commentLikeOf (castObjectId e1 t1) uid) (likes s) = None"
    and new: "newObjectId e1 \<notin> set (map l_id (likes s))"
  shows "toggleCommentLike e2 uid t2 (snd (toggleCommentLike e1 uid t1 s)) =
      (Inr (200, APIResponse 200 \<lparr>isLiked = False\<rparr> ''Comment unliked successfully''), s)"
proof -
  let ?n = "newCommentLike e1 uid t1"
  have q: "commentLikeOf (castObjectId e1 t1) uid ?n"
    by (simp add: commentLikeOf_def newCommentLike_def)
  have i: "l_id ?n = newObjectId e1" by (simp add: newCommentLike_def)
  have f: "find (commentLikeOf (castObjectId e1 t1) uid) (likes s @ [?n]) = Some ?n"
    using fresh q by (simp add: findOne_def find_append_new)
  have d: "findByIdAndDelete l_id (l_id ?n) (likes s @ [?n]) = likes s"
    using new i findByIdAndDelete_append_new[of l_id ?n "likes s"] by simp
  have "snd (toggleCommentLike e1 uid t1 s) = s\<lparr>likes := likes s @ [?n]\<rparr>"
    using v fresh by (simp add: toggleCommentLike_absent)
  then show ?thesis
    using v same f d by (simp add: toggleCommentLike_def findOne_def)
qed

lemma toggleCommentLike_flips:
  assumes v: "isValidObjectId e commentId" and ids: "distinct (map l_id (likes s))"
    and one: "length (filter (commentLikeOf (castObjectId e commentId) uid) (likes s)) \<le> 1"
  shows "(findOne (commentLikeOf (castObjectId e commentId) uid)
            (likes (snd (toggleCommentLike e uid commentId s))) \<noteq> None)
       = (findOne (commentLikeOf (castObjectId e commentId) uid) (likes s) = None)"
proof (cases "findOne (commentLikeOf (castObjectId e commentId) uid) (likes s)")
  case None
  have "commentLikeOf (castObjectId e commentId) uid (newCommentLike e uid commentId)"
    by (simp add: commentLikeOf_def newCommentLike_def)
  with None v show ?thesis
    by (simp add: toggleCommentLike_absent) (simp add: findOne_def find_append_new)
next
  case (Some l)
  with one have "find (commentLikeOf (castObjectId e commentId) uid) (remove1 l (likes s)) = None"
    by (simp add: findOne_def find_remove1_None)
  with Some v ids show ?thesis
    by (simp add: toggleCommentLike_present) (simp add: findOne_def)
qed

lemma toggleCommentLike_spec:
  assumes v: "isValidObjectId e t1" "isValidObjectId e t2" "isValidObjectId e t3"
    and same: "castObjectId e t2 = castObjectId e t1" "castObjectId e t3 = castObjectId e t1"
    and ids: "distinct (map l_id (likes s))"
  shows
   "(findOne (commentLikeOf (castObjectId e t1) uid) (likes s) = None \<longrightarrow>
       toggleCommentLike e uid t1 s =
         (Inr (201, APIResponse 201 \<lparr>isLiked = True\<rparr> ''Comment liked successfully''),
          s\<lparr>likes := likes s @ [newCommentLike e uid t1]\<rparr>)
       \<and> (newObjectId e \<notin> set (map l_id (likes s)) \<longrightarrow>
            toggleCommentLike (e\<lparr>newObjectId := n2, now := c2\<rparr>) uid t2
                (snd (toggleCommentLike e uid t1 s)) =
              (Inr (200, APIResponse 200 \<lparr>isLiked = False\<rparr> ''Comment unliked successfully''), s)
            \<and> fst (toggleCommentLike (e\<lparr>newObjectId := n3, now := c3\<rparr>) uid t3
                     (snd (toggleCommentLike (e\<lparr>newObjectId := n2, now := c2\<rparr>) uid t2
                        (snd (toggleCommentLike e uid t1 s))))) =
              Inr (201, APIResponse 201 \<lparr>isLiked = True\<rparr> ''Comment liked successfully'')))
    \<and> (\<forall>l. findOne (commentLikeOf (castObjectId e t1) uid) (likes s) = Some l \<longrightarrow>
          toggleCommentLike e uid t1 s =
            (Inr (200, APIResponse 200 \<lparr>isLiked = False\<rparr> ''Comment unliked successfully''),
             s\<lparr>likes := remove1 l (likes s)\<rparr>)
          \<and> l \<notin> set (remove1 l (likes s)))
    \<and> (length (filter (commentLikeOf (castObjectId e t1) uid) (likes s)) \<le> 1 \<longrightarrow>
          (findOne (commentLikeOf (castObjectId e t1) uid)
             (likes (snd (toggleCommentLike e uid t1 s))) \<noteq> None)
            = (findOne (commentLikeOf (castObjectId e t1) uid) (likes s) = None))"
proof (intro conjI impI allI)
  let ?e2 = "e\<lparr>newObjectId := n2, now := c2\<rparr>" and ?e3 = "e\<lparr>newObjectId := n3, now := c3\<rparr>"
  have v2: "isValidObjectId ?e2 t2" and c2: "castObjectId ?e2 t2 = castObjectId e t1"
    and v3: "isValidObjectId ?e3 t3" and c3: "castObjectId ?e3 t3 = castObjectId e t1"
    using v same by simp_all
  assume fresh: "findOne (commentLikeOf (castObjectId e t1) uid) (likes s) = None"
  show "toggleCommentLike e uid t1 s =
         (Inr (201, APIResponse 201 \<lparr>isLiked = True\<rparr> ''Comment liked successfully''),
          s\<lparr>likes := likes s @ [newCommentLike e uid t1]\<rparr>)"
    using v(1) fresh by (rule toggleCommentLike_absent)
  assume new: "newObjectId e \<notin> set (map l_id (likes s))"
  show undo: "toggleCommentLike ?e2 uid t2 (snd (toggleCommentLike e uid t1 s)) =
      (Inr (200, APIResponse 200 \<lparr>isLiked = False\<rparr> ''Comment unliked successfully''), s)"
    using v(1) v2 c2 fresh new by (rule toggleCommentLike_undo)
  from fresh c3 have "findOne (commentLikeOf (castObjectId ?e3 t3) uid) (likes s) = None"
    by simp
  from toggleCommentLike_absent[OF v3 this]
  show "fst (toggleCommentLike ?e3 uid t3
                     (snd (toggleCommentLike ?e2 uid t2 (snd (toggleCommentLike e uid t1 s))))) =
              Inr (201, APIResponse 201 \<lparr>isLiked = True\<rparr> ''Comment liked successfully'')"
    by (simp add: undo)
next
  fix l assume "findOne (commentLikeOf (castObjectId e t1) uid) (likes s) = Some l"
  then show "toggleCommentLike e uid t1 s =
            (Inr (200, APIResponse 200 \<lparr>isLiked = False\<rparr> ''Comment unliked successfully''),
             s\<lparr>likes := remove1 l (likes s)\<rparr>)"
    using v(1) ids by (simp add: toggleCommentLike_present)
  from ids have "distinct (likes s)" by (rule distinct_map[THEN iffD1, THEN conjunct1])
  then show "l \<notin> set (remove1 l (likes s))" by simp
next
  assume "length (filter (commentLikeOf (castObjectId e t1) uid) (likes s)) \<le> 1"
  with v(1) ids show "(findOne (commentLikeOf (castObjectId e t1) uid)
             (likes (snd (toggleCommentLike e uid t1 s))) \<noteq> None)
            = (findOne (commentLikeOf (castObjectId e t1) uid) (likes s) = None)"
    by (rule toggleCommentLike_flips)
qed

lemma toggleTweetLike_absent:
  assumes "isValidObjectId e tweetId"
    "findOne (tweetLikeOf (castObjectId e tweetId) uid) (likes s) = None"
  shows "toggleTweetLike e uid tweetId s =
     (Inr (201, APIResponse 201 \<lparr>isLiked = True\<rparr> ''Tweet liked successfully''),
      s\<lparr>likes := likes s @ [newTweetLike e uid tweetId]\<rparr>)"
  using assms by (simp add: toggleTweetLike_def create_def)

lemma toggleTweetLike_present:
  assumes "isValidObjectId e tweetId" "distinct (map l_id (likes s))"
    "findOne (tweetLikeOf (castObjectId e tweetId) uid) (likes s) = Some l"
  shows "toggleTweetLike e uid tweetId s =
     (Inr (200, APIResponse 200 \<lparr>isLiked = False\<rparr> ''Tweet unliked successfully''),
      s\<lparr>likes := remove1 l (likes s)\<rparr>)"
proof -
  from assms(3) have "l \<in> set (likes s)"
    by (auto simp: findOne_def find_Some_iff)
  with assms show ?thesis
    by (simp add: toggleTweetLike_def findByIdAndDelete_distinct)
qed

lemma toggleTweetLike_undo:
  assumes v: "isValidObjectId e1 t1" "isValidObjectId e2 t2"
    and same: "castObjectId e2 t2 = castObjectId e1 t1"
    and fresh: "findOne (tweetLikeOf (castObjectId e1 t1) uid) (likes s) = None"
    and new: "newObjectId e1 \<notin> set (map l_id (likes s))"
  shows "toggleTweetLike e2 uid t2 (snd (toggleTweetLike e1 uid t1 s)) =
      (Inr (200, APIResponse 200 \<lparr>isLiked = False\<rparr> ''Tweet unliked successfully''), s)"
proof -
  let ?n = "newTweetLike e1 uid t1"
  have q: "tweetLikeOf (castObjectId e1 t1) uid ?n"
    by (simp add: tweetLikeOf_def newTweetLike_def)
  have i: "l_id ?n = newObjectId e1" by (simp add: newTweetLike_def)
  have f: "find (tweetLikeOf (castObjectId e1 t1) uid) (likes s @ [?n]) = Some ?n"
    using fresh q by (simp add: findOne_def find_append_new)
  have d: "findByIdAndDelete l_id (l_id ?n) (likes s @ [?n]) = likes s"
    using new i findByIdAndDelete_append_new[of l_id ?n "likes s"] by simp
  have "snd (toggleTweetLike e1 uid t1 s) = s\<lparr>likes := likes s @ [?n]\<rparr>"
    using v fresh by (simp add: toggleTweetLike_absent)
  then show ?thesis
    using v same f d by (simp add: toggleTweetLike_def findOne_def)
qed

lemma toggleTweetLike_flips:
  assumes v: "isValidObjectId e tweetId" and ids: "distinct (map l_id (likes s))"
    and one: "length (filter (tweetLikeOf (castObjectId e tweetId) uid) (likes s)) \<le> 1"
  shows "(findOne (tweetLikeOf (castObjectId e tweetId) uid)
            (likes (snd (toggleTweetLike e uid tweetId s))) \<noteq> None)
       = (findOne (tweetLikeOf (castObjectId e tweetId) uid) (likes s) = None)"
proof (cases "findOne (tweetLikeOf (castObjectId e tweetId) uid) (likes s)")
  case None
  have "tweetLikeOf (castObjectId e tweetId) uid (newTweetLike e uid tweetId)"
    by (simp add: tweetLikeOf_def newTweetLike_def)
  with None v show ?thesis
    by (simp add: toggleTweetLike_absent) (simp add: findOne_def find_append_new)
next
  case (Some l)
  with one have "find (tweetLikeOf (castObjectId e tweetId) uid) (remove1 l (likes s)) = None"
    by (simp add: findOne_def find_remove1_None)
  with Some v ids show ?thesis
    by (simp add: toggleTweetLike_present) (simp add: findOne_def)
qed

lemma toggleTweetLike_spec:
  assumes v: "isValidObjectId e t1" "isValidObjectId e t2" "isValidObjectId e t3"
    and same: "castObjectId e t2 = castObjectId e t1" "castObjectId e t3 = castObjectId e t1"
    and ids: "distinct (map l_id (likes s))"
  shows
   "(findOne (tweetLikeOf (castObjectId e t1) uid) (likes s) = None \<longrightarrow>
       toggleTweetLike e uid t1 s =
         (Inr (201, APIResponse 201 \<lparr>isLiked = True\<rparr> ''Tweet liked successfully''),
          s\<lparr>likes := likes s @ [newTweetLike e uid t1]\<rparr>)
       \<and> (newObjectId e \<notin> set (map l_id (likes s)) \<longrightarrow>
            toggleTweetLike (e\<lparr>newObjectId := n2, now := c2\<rparr>) uid t2
                (snd (toggleTweetLike e uid t1 s)) =
              (Inr (200, APIResponse 200 \<lparr>isLiked = False\<rparr> ''Tweet unliked successfully''), s)
            \<and> fst (toggleTweetLike (e\<lparr>newObjectId := n3, now := c3\<rparr>) uid t3
                     (snd (toggleTweetLike (e\<lparr>newObjectId := n2, now := c2\<rparr>) uid t2
                        (snd (toggleTweetLike e uid t1 s))))) =
              Inr (201, APIResponse 201 \<lparr>isLiked = True\<rparr> ''Tweet liked successfully'')))
    \<and> (\<forall>l. findOne (tweetLikeOf (castObjectId e t1) uid) (likes s) = Some l \<longrightarrow>
          toggleTweetLike e uid t1 s =
            (Inr (200, APIResponse 200 \<lparr>isLiked = False\<rparr> ''Tweet unliked successfully''),
             s\<lparr>likes := remove1 l (likes s)\<rparr>)
          \<and> l \<notin> set (remove1 l (likes s)))
    \<and> (length (filter (tweetLikeOf (castObjectId e t1) uid) (likes s)) \<le> 1 \<longrightarrow>
          (findOne (tweetLikeOf (castObjectId e t1) uid)
             (likes (snd (toggleTweetLike e uid t1 s))) \<noteq> None)
            = (findOne (tweetLikeOf (castObjectId e t1) uid) (likes s) = None))"
proof (intro conjI impI allI)
  let ?e2 = "e\<lparr>newObjectId := n2, now := c2\<rparr>" and ?e3 = "e\<lparr>newObjectId := n3, now := c3\<rparr>"
  have v2: "isValidObjectId ?e2 t2" and c2: "castObjectId ?e2 t2 = castObjectId e t1"
    and v3: "isValidObjectId ?e3 t3" and c3: "castObjectId ?e3 t3 = castObjectId e t1"
    using v same by simp_all
  assume fresh: "findOne (tweetLikeOf (castObjectId e t1) uid) (likes s) = None"
  show "toggleTweetLike e uid t1 s =
         (Inr (201, APIResponse 201 \<lparr>isLiked = True\<rparr> ''Tweet liked successfully''),
          s\<lparr>likes := likes s @ [newTweetLike e uid t1]\<rparr>)"
    using v(1) fresh by (rule toggleTweetLike_absent)
  assume new: "newObjectId e \<notin> set (map l_id (likes s))"
  show undo: "toggleTweetLike ?e2 uid t2 (snd (toggleTweetLike e uid t1 s)) =
      (Inr (200, APIResponse 200 \<lparr>isLiked = False\<rparr> ''Tweet unliked successfully''), s)"
    using v(1) v2 c2 fresh new by (rule toggleTweetLike_undo)
  from fresh c3 have "findOne (tweetLikeOf (castObjectId ?e3 t3) uid) (likes s) = None"
    by simp
  from toggleTweetLike_absent[OF v3 this]
  show "fst (toggleTweetLike ?e3 uid t3
                     (snd (toggleTweetLike ?e2 uid t2 (snd (toggleTweetLike e uid t1 s))))) =
              Inr (201, APIResponse 201 \<lparr>isLiked = True\<rparr> ''Tweet liked successfully'')"
    by (simp add: undo)
next
  fix l assume "findOne (tweetLikeOf (castObjectId e t1) uid) (likes s) = Some l"
  then show "toggleTweetLike e uid t1 s =
            (Inr (200, APIResponse 200 \<lparr>isLiked = False\<rparr> ''Tweet unliked successfully''),
             s\<lparr>likes := remove1 l (likes s)\<rparr>)"
    using v(1) ids by (simp add: toggleTweetLike_present)
  from ids have "distinct (likes s)" by (rule distinct_map[THEN iffD1, THEN conjunct1])
  then show "l \<notin> set (remove1 l (likes s))" by simp
next
  assume "length (filter (tweetLikeOf (castObjectId e t1) uid) (likes s)) \<le> 1"
  with v(1) ids show "(findOne (tweetLikeOf (castObjectId e t1) uid)
             (likes (snd (toggleTweetLike e uid t1 s))) \<noteq> None)
            = (findOne (tweetLikeOf (castObjectId e t1) uid) (likes s) = None)"
    by (rule toggleTweetLike_flips)
qed

text \<open>
  C1, amended. For each of the three like toggles, called with well-formed spellings of
  one target identifier: when no like of the (target, requester) pair is stored, the like
  is appended and the reply is 201 with \<open>isLiked = True\<close>; when one is stored, the one
  that \<open>findOne\<close> returns is removed and the reply is 200 with \<open>isLiked = False\<close>
  (identifiers of stored likes are distinct, and the new identifier is fresh, as the
  storage layer guarantees). Hence three calls on a fresh pair reply 201, 200, 201, the
  second restoring the store. While a pair has at most one like, a call flips whether a
  like of the pair is stored, so the reported flag is the presence of the record after
  the call.
\<close>

theorem like_toggle_contract:
  assumes "isValidObjectId e t1" "isValidObjectId e t2" "isValidObjectId e t3"
    and "castObjectId e t2 = castObjectId e t1" "castObjectId e t3 = castObjectId e t1"
    and "distinct (map l_id (likes s))"
  shows
   "((findOne (videoLikeOf (castObjectId e t1) uid) (likes s) = None \<longrightarrow>
       toggleVideoLike e uid t1 s =
         (Inr (201, APIResponse 201 \<lparr>isLiked = True\<rparr> ''Video liked successfully''),
          s\<lparr>likes := likes s @ [newVideoLike e uid t1]\<rparr>)
       \<and> (newObjectId e \<notin> set (map l_id (likes s)) \<longrightarrow>
            toggleVideoLike (e\<lparr>newObjectId := n2, now := c2\<rparr>) uid t2
                (snd (toggleVideoLike e uid t1 s)) =
              (Inr (200, APIResponse 200 \<lparr>isLiked = False\<rparr> ''Video unliked successfully''), s)
            \<and> fst (toggleVideoLike (e\<lparr>newObjectId := n3, now := c3\<rparr>) uid t3
                     (snd (toggleVideoLike (e\<lparr>newObjectId := n2, now := c2\<rparr>) uid t2
                        (snd (toggleVideoLike e uid t1 s))))) =
              Inr (201, APIResponse 201 \<lparr>isLiked = True\<rparr> ''Video liked successfully'')))
    \<and> (\<forall>l. findOne (videoLikeOf (castObjectId e t1) uid) (likes s) = Some l \<longrightarrow>
          toggleVideoLike e uid t1 s =
            (Inr (200, APIResponse 200 \<lparr>isLiked = False\<rparr> ''Video unliked successfully''),
             s\<lparr>likes := remove1 l (likes s)\<rparr>)
          \<and> l \<notin> set (remove1 l (likes s)))
    \<and> (length (filter (videoLikeOf (castObjectId e t1) uid) (likes s)) \<le> 1 \<longrightarrow>
          (findOne (videoLikeOf (castObjectId e t1) uid)
             (likes (snd (toggleVideoLike e uid t1 s))) \<noteq> None)
            = (findOne (videoLikeOf (castObjectId e t1) uid) (likes s) = None)))
  \<and> ((findOne (commentLikeOf (castObjectId e t1) uid) (likes s) = None \<longrightarrow>
       toggleCommentLike e uid t1 s =
         (Inr (201, APIResponse 201 \<lparr>isLiked = True\<rparr> ''Comment liked successfully''),
          s\<lparr>likes := likes s @ [newCommentLike e uid t1]\<rparr>)
       \<and> (newObjectId e \<notin> set (map l_id (likes s)) \<longrightarrow>
            toggleCommentLike (e\<lparr>newObjectId := n2, now := c2\<rparr>) uid t2
                (snd (toggleCommentLike e uid t1 s)) =
              (Inr (200, APIResponse 200 \<lparr>isLiked = False\<rparr> ''Comment unliked successfully''), s)
            \<and> fst (toggleCommentLike (e\<lparr>newObjectId := n3, now := c3\<rparr>) uid t3
                     (snd (toggleCommentLike (e\<lparr>newObjectId := n2, now := c2\<rparr>) uid t2
                        (snd (toggleCommentLike e uid t1 s))))) =
              Inr (201, APIResponse 201 \<lparr>isLiked = True\<rparr> ''Comment liked successfully'')))
    \<and> (\<forall>l. findOne (commentLikeOf (castObjectId e t1) uid) (likes s) = Some l \<longrightarrow>
          toggleCommentLike e uid t1 s =
            (Inr (200, APIResponse 200 \<lparr>isLiked = False\<rparr> ''Comment unliked successfully''),
             s\<lparr>likes := remove1 l (likes s)\<rparr>)
          \<and> l \<notin> set (remove1 l (likes s)))
    \<and> (length (filter (commentLikeOf (castObjectId e t1) uid) (likes s)) \<le> 1 \<longrightarrow>
          (findOne (commentLikeOf (castObjectId e t1) uid)
             (likes (snd (toggleCommentLike e uid t1 s))) \<noteq> None)
            = (findOne (commentLikeOf (castObjectId e t1) uid) (likes s) = None)))
  \<and> ((findOne (tweetLikeOf (castObjectId e t1) uid) (likes s) = None \<longrightarrow>
       toggleTweetLike e uid t1 s =
         (Inr (201, APIResponse 201 \<lparr>isLiked = True\<rparr> ''Tweet liked successfully''),
          s\<lparr>likes := likes s @ [newTweetLike e uid t1]\<rparr>)
       \<and> (newObjectId e \<notin> set (map l_id (likes s)) \<longrightarrow>
            toggleTweetLike (e\<lparr>newObjectId := n2, now := c2\<rparr>) uid t2
                (snd (toggleTweetLike e uid t1 s)) =
              (Inr (200, APIResponse 200 \<lparr>isLiked = False\<rparr> ''Tweet unliked successfully''), s)
            \<and> fst (toggleTweetLike (e\<lparr>newObjectId := n3, now := c3\<rparr>) uid t3
                     (snd (toggleTweetLike (e\<lparr>newObjectId := n2, now := c2\<rparr>) uid t2
                        (snd (toggleTweetLike e uid t1 s))))) =
              Inr (201, APIResponse 201 \<lparr>isLiked = True\<rparr> ''Tweet liked successfully'')))
    \<and> (\<forall>l. findOne (tweetLikeOf (castObjectId e t1) uid) (likes s) = Some l \<longrightarrow>
          toggleTweetLike e uid t1 s =
            (Inr (200, APIResponse 200 \<lparr>isLiked = False\<rparr> ''Tweet unliked successfully''),
             s\<lparr>likes := remove1 l (likes s)\<rparr>)
          \<and> l \<notin> set (remove1 l (likes s)))
    \<and> (length (filter (tweetLikeOf (castObjectId e t1) uid) (likes s)) \<le> 1 \<longrightarrow>
          (findOne (tweetLikeOf (castObjectId e t1) uid)
             (likes (snd (toggleTweetLike e uid t1 s))) \<noteq> None)
            = (findOne (tweetLikeOf (castObjectId e t1) uid) (likes s) = None)))"
  by (rule conjI[OF toggleVideoLike_spec[OF assms]
        conjI[OF toggleCommentLike_spec[OF assms] toggleTweetLike_spec[OF assms]]])

theorem like_toggle_contract_witness:
  "toggleVideoLike (sampleEnv idOne 1) alice idTen emptyStore =
     (Inr (201, APIResponse 201 \<lparr>isLiked = True\<rparr> ''Video liked successfully''),
      emptyStore\<lparr>likes := [newVideoLike (sampleEnv idOne 1) alice idTen]\<rparr>)
   \<and> toggleVideoLike ((sampleEnv idOne 1)\<lparr>newObjectId := ObjectId idTwo, now := 2\<rparr>) alice idTenUpper
        (snd (toggleVideoLike (sampleEnv idOne 1) alice idTen emptyStore)) =
     (Inr (200, APIResponse 200 \<lparr>isLiked = False\<rparr> ''Video unliked successfully''), emptyStore)
   \<and> fst (toggleVideoLike ((sampleEnv idOne 1)\<lparr>newObjectId := ObjectId idThree, now := 3\<rparr>) alice idTen
        (snd (toggleVideoLike ((sampleEnv idOne 1)\<lparr>newObjectId := ObjectId idTwo, now := 2\<rparr>)
           alice idTenUpper
           (snd (toggleVideoLike (sampleEnv idOne 1) alice idTen emptyStore))))) =
     Inr (201, APIResponse 201 \<lparr>isLiked = True\<rparr> ''Video liked successfully'')
   \<and> findOne (videoLikeOf (ObjectId idTen) alice)
        (likes (snd (toggleVideoLike (sampleEnv idOne 1) alice idTen emptyStore))) \<noteq> None
   \<and> fst (toggleCommentLike (sampleEnv idOne 1) alice idTen emptyStore) =
     Inr (201, APIResponse 201 \<lparr>isLiked = True\<rparr> ''Comment liked successfully'')
   \<and> toggleTweetLike (sampleEnv idOne 1) alice idFour
        (twiceLikedStore\<lparr>likes := [secondLike\<lparr>l_video := None, l_tweet := Some (ObjectId idFour)\<rparr>]\<rparr>) =
     (Inr (200, APIResponse 200 \<lparr>isLiked = False\<rparr> ''Tweet unliked successfully''),
      twiceLikedStore\<lparr>likes := []\<rparr>)"
proof -
  let ?e = "sampleEnv idOne 1"
  let ?n = "secondLike\<lparr>l_video := None, l_tweet := Some (ObjectId idFour)\<rparr>"
  let ?s = "twiceLikedStore\<lparr>likes := [?n]\<rparr>"
  have v: "isValidObjectId ?e idTen" "isValidObjectId ?e idTenUpper" "isValidObjectId ?e idTen"
    and c: "castObjectId ?e idTenUpper = castObjectId ?e idTen"
      "castObjectId ?e idTen = castObjectId ?e idTen"
    and v4: "isValidObjectId ?e idFour"
    by (simp_all add: sampleEnv_sel hex_ids hexCast_ids)
  have ten: "castObjectId ?e idTen = ObjectId idTen" and four: "castObjectId ?e idFour = ObjectId idFour"
    by (simp_all add: sampleEnv_sel hexCast_ids)
  have d: "distinct (map l_id (likes emptyStore))" "distinct (map l_id (likes ?s))"
    by (simp_all add: emptyStore_sel)
  have fresh: "findOne (videoLikeOf (castObjectId ?e idTen) alice) (likes emptyStore) = None"
    and fresh': "findOne (commentLikeOf (castObjectId ?e idTen) alice) (likes emptyStore) = None"
    by (simp_all add: emptyStore_sel findOne_def)
  have new: "newObjectId ?e \<notin> set (map l_id (likes emptyStore))"
    by (simp add: emptyStore_sel)
  have one: "length (filter (videoLikeOf (castObjectId ?e idTen) alice) (likes emptyStore)) \<le> 1"
    by (simp add: emptyStore_sel)
  have found: "findOne (tweetLikeOf (castObjectId ?e idFour) alice) (likes ?s) = Some ?n"
    unfolding four by (simp add: findOne_def tweetLikeOf_def secondLike_def)
  note t = like_toggle_contract[OF v c d(1), where uid = alice and ?n2.0 = "ObjectId idTwo"
      and ?c2.0 = 2 and ?n3.0 = "ObjectId idThree" and ?c3.0 = 3]
  from t fresh new
  have a: "toggleVideoLike ?e alice idTen emptyStore =
     (Inr (201, APIResponse 201 \<lparr>isLiked = True\<rparr> ''Video liked successfully''),
      emptyStore\<lparr>likes := likes emptyStore @ [newVideoLike ?e alice idTen]\<rparr>)"
    and b: "toggleVideoLike (?e\<lparr>newObjectId := ObjectId idTwo, now := 2\<rparr>) alice idTenUpper
        (snd (toggleVideoLike ?e alice idTen emptyStore)) =
     (Inr (200, APIResponse 200 \<lparr>isLiked = False\<rparr> ''Video unliked successfully''), emptyStore)"
    and c3: "fst (toggleVideoLike (?e\<lparr>newObjectId := ObjectId idThree, now := 3\<rparr>) alice idTen
        (snd (toggleVideoLike (?e\<lparr>newObjectId := ObjectId idTwo, now := 2\<rparr>) alice idTenUpper
           (snd (toggleVideoLike ?e alice idTen emptyStore))))) =
     Inr (201, APIResponse 201 \<lparr>isLiked = True\<rparr> ''Video liked successfully'')"
    by blast+
  from a have a': "toggleVideoLike ?e alice idTen emptyStore =
     (Inr (201, APIResponse 201 \<lparr>isLiked = True\<rparr> ''Video liked successfully''),
      emptyStore\<lparr>likes := [newVideoLike ?e alice idTen]\<rparr>)"
    by (simp add: emptyStore_sel)
  from t fresh one
  have "findOne (videoLikeOf (castObjectId ?e idTen) alice)
        (likes (snd (toggleVideoLike ?e alice idTen emptyStore))) \<noteq> None"
    by blast
  then have e': "findOne (videoLikeOf (ObjectId idTen) alice)
        (likes (snd (toggleVideoLike ?e alice idTen emptyStore))) \<noteq> None"
    unfolding ten .
  from t fresh'
  have "toggleCommentLike ?e alice idTen emptyStore =
     (Inr (201, APIResponse 201 \<lparr>isLiked = True\<rparr> ''Comment liked successfully''),
      emptyStore\<lparr>likes := likes emptyStore @ [newCommentLike ?e alice idTen]\<rparr>)"
    by blast
  then have f: "fst (toggleCommentLike ?e alice idTen emptyStore) =
     Inr (201, APIResponse 201 \<lparr>isLiked = True\<rparr> ''Comment liked successfully'')"
    by simp
  from like_toggle_contract[OF v4 v4 v4 refl refl d(2), where uid = alice] found
  have "toggleTweetLike ?e alice idFour ?s =
     (Inr (200, APIResponse 200 \<lparr>isLiked = False\<rparr> ''Tweet unliked successfully''),
      ?s\<lparr>likes := remove1 ?n (likes ?s)\<rparr>)"
    by blast
  then have g: "toggleTweetLike ?e alice idFour ?s =
     (Inr (200, APIResponse 200 \<lparr>isLiked = False\<rparr> ''Tweet unliked successfully''),
      twiceLikedStore\<lparr>likes := []\<rparr>)"
    by simp
  show ?thesis
    by (rule conjI[OF a' conjI[OF b conjI[OF c3 conjI[OF e' conjI[OF f g]]]]])
qed

theorem like_toggle_counterexample:
  "likes emptyStore = []
   \<and> toggleVideoLike (sampleEnv idSix 9) alice ''not-an-id'' emptyStore =
       (Inl (APIError 400 ''Invalid video ID''), emptyStore)
   \<and> toggleVideoLike (sampleEnv idSix 9) alice idFour twiceLikedStore =
       (Inr (200, APIResponse 200 \<lparr>isLiked = False\<rparr> ''Video unliked successfully''),
        twiceLikedStore\<lparr>likes := [secondLike]\<rparr>)
   \<and> findOne (videoLikeOf (ObjectId idFour) alice) [secondLike] = Some secondLike"
  by (simp add: toggleVideoLike_def sampleEnv_sel not_hex hex_ids hexCast_ids emptyStore_sel
      findOne_def twiceLikedStore_def videoLikeOf_def firstLike_def secondLike_def)

subsection \<open>Lookup before ownership\<close>

lemma updateTweet_guard:
  assumes "isValidObjectId e i" "\<not> blank content"
  shows
   "((findById t_id (castObjectId e i) (tweets s) = None \<longrightarrow>
       updateTweet e uid i content s = (Inl (APIError 404 ''Tweet not found''), s))
    \<and> (\<forall>r. findById t_id (castObjectId e i) (tweets s) = Some r \<and> t_owner r \<noteq> uid \<longrightarrow>
       updateTweet e uid i content s =
         (Inl (APIError 403 ''You are not authorized to update this tweet''), s))
    \<and> ((\<exists>m. fst (updateTweet e uid i content s) = Inl (APIError 403 m)) \<longrightarrow>
       (\<exists>r. findById t_id (castObjectId e i) (tweets s) = Some r \<and> t_owner r \<noteq> uid)))"
  using assms
  by (auto simp: updateTweet_def toString_eq_iff split: option.splits prod.splits if_splits)

lemma deleteTweet_guard:
  assumes "isValidObjectId e i"
  shows
   "((findById t_id (castObjectId e i) (tweets s) = None \<longrightarrow>
       deleteTweet e uid i s = (Inl (APIError 404 ''Tweet not found''), s))
    \<and> (\<forall>r. findById t_id (castObjectId e i) (tweets s) = Some r \<and> t_owner r \<noteq> uid \<longrightarrow>
       deleteTweet e uid i s =
         (Inl (APIError 403 ''You are not authorized to delete this tweet''), s))
    \<and> ((\<exists>m. fst (deleteTweet e uid i s) = Inl (APIError 403 m)) \<longrightarrow>
       (\<exists>r. findById t_id (castObjectId e i) (tweets s) = Some r \<and> t_owner r \<noteq> uid)))"
  using assms
  by (auto simp: deleteTweet_def toString_eq_iff split: option.splits prod.splits if_splits)

lemma addVideoToPlaylist_guard:
  assumes "isValidObjectId e i" "isValidObjectId e vid"
  shows
   "((findById p_id (castObjectId e i) (playlists s) = None \<longrightarrow>
       addVideoToPlaylist e uid i vid s = (Inl (APIError 404 ''Playlist not found''), s))
    \<and> (\<forall>r. findById p_id (castObjectId e i) (playlists s) = Some r \<and> p_owner r \<noteq> uid \<longrightarrow>
       addVideoToPlaylist e uid i vid s =
         (Inl (APIError 403 ''You are not authorized to update this playlist''), s))
    \<and> ((\<exists>m. fst (addVideoToPlaylist e uid i vid s) = Inl (APIError 403 m)) \<longrightarrow>
       (\<exists>r. findById p_id (castObjectId e i) (playlists s) = Some r \<and> p_owner r \<noteq> uid)))"
  using assms
  by (auto simp: addVideoToPlaylist_def toString_eq_iff split: option.splits prod.splits if_splits)

lemma removeVideoFromPlaylist_guard:
  assumes "isValidObjectId e i" "isValidObjectId e vid"
  shows
   "((findById p_id (castObjectId e i) (playlists s) = None \<longrightarrow>
       removeVideoFromPlaylist e uid i vid s = (Inl (APIError 404 ''Playlist not found''), s))
    \<and> (\<forall>r. findById p_id (castObjectId e i) (playlists s) = Some r \<and> p_owner r \<noteq> uid \<longrightarrow>
       removeVideoFromPlaylist e uid i vid s =
         (Inl (APIError 403 ''You are not authorized to update this playlist''), s))
    \<and> ((\<exists>m. fst (removeVideoFromPlaylist e uid i vid s) = Inl (APIError 403 m)) \<longrightarrow>
       (\<exists>r. findById p_id (castObjectId e i) (playlists s) = Some r \<and> p_owner r \<noteq> uid)))"
  using assms
  by (auto simp: removeVideoFromPlaylist_def toString_eq_iff split: option.splits prod.splits if_splits)

lemma deletePlaylist_guard:
  assumes "isValidObjectId e i"
  shows
   "((findById p_id (castObjectId e i) (playlists s) = None \<longrightarrow>
       deletePlaylist e uid i s = (Inl (APIError 404 ''Playlist not found''), s))
    \<and> (\<forall>r. findById p_id (castObjectId e i) (playlists s) = Some r \<and> p_owner r \<noteq> uid \<longrightarrow>
       deletePlaylist e uid i s =
         (Inl (APIError 403 ''You are not authorized to delete this playlist''), s))
    \<and> ((\<exists>m. fst (deletePlaylist e uid i s) = Inl (APIError 403 m)) \<longrightarrow>
       (\<exists>r. findById p_id (castObjectId e i) (playlists s) = Some r \<and> p_owner r \<noteq> uid)))"
  using assms
  by (auto simp: deletePlaylist_def toString_eq_iff split: option.splits prod.splits if_splits)

lemma updatePlaylist_guard:
  assumes "isValidObjectId e i" "\<not> blank content"
  shows
   "((findById p_id (castObjectId e i) (playlists s) = None \<longrightarrow>
       updatePlaylist e uid i content description s = (Inl (APIError 404 ''Playlist not found''), s))
    \<and> (\<forall>r. findById p_id (castObjectId e i) (playlists s) = Some r \<and> p_owner r \<noteq> uid \<longrightarrow>
       updatePlaylist e uid i content description s =
         (Inl (APIError 403 ''You are not authorized to update this playlist''), s))
    \<and> ((\<exists>m. fst (updatePlaylist e uid i content description s) = Inl (APIError 403 m)) \<longrightarrow>
       (\<exists>r. findById p_id (castObjectId e i) (playlists s) = Some r \<and> p_owner r \<noteq> uid)))"
  using assms
  by (auto simp: updatePlaylist_def toString_eq_iff split: option.splits prod.splits if_splits)

lemma updateComment_guard:
  assumes "isValidObjectId e i" "\<not> blank content"
  shows
   "((findById c_id (castObjectId e i) (comments s) = None \<longrightarrow>
       updateComment e uid i content s = (Inl (APIError 404 ''Comment not found''), s))
    \<and> (\<forall>r. findById c_id (castObjectId e i) (comments s) = Some r \<and> c_owner r \<noteq> uid \<longrightarrow>
       updateComment e uid i content s =
         (Inl (APIError 403 ''You are not authorized to update this comment''), s))
    \<and> ((\<exists>m. fst (updateComment e uid i content s) = Inl (APIError 403 m)) \<longrightarrow>
       (\<exists>r. findById c_id (castObjectId e i) (comments s) = Some r \<and> c_owner r \<noteq> uid)))"
  using assms
  by (auto simp: updateComment_def toString_eq_iff split: option.splits prod.splits if_splits)

lemma deleteComment_guard:
  assumes "isValidObjectId e i"
  shows
   "((findById c_id (castObjectId e i) (comments s) = None \<longrightarrow>
       deleteComment e uid i s = (Inl (APIError 404 ''Comment not found''), s))
    \<and> (\<forall>r. findById c_id (castObjectId e i) (comments s) = Some r \<and> c_owner r \<noteq> uid \<longrightarrow>
       deleteComment e uid i s =
         (Inl (APIError 403 ''You are not authorized to delete this comment''), s))
    \<and> ((\<exists>m. fst (deleteComment e uid i s) = Inl (APIError 403 m)) \<longrightarrow>
       (\<exists>r. findById c_id (castObjectId e i) (comments s) = Some r \<and> c_owner r \<noteq> uid)))"
  using assms
  by (auto simp: deleteComment_def toString_eq_iff split: option.splits prod.splits if_splits)

lemma updateVideo_guard:
  assumes "isValidObjectId e i" "\<not> blank content"
  shows
   "((findById v_id (castObjectId e i) (videos s) = None \<longrightarrow>
       updateVideo e uid i content description thumbnailLocalPath s = (Inl (APIError 404 ''Video not found''), s))
    \<and> (\<forall>r. findById v_id (castObjectId e i) (videos s) = Some r \<and> v_owner r \<noteq> uid \<longrightarrow>
       updateVideo e uid i content description thumbnailLocalPath s =
         (Inl (APIError 403 ''You are not authorized to update this video''), s))
    \<and> ((\<exists>m. fst (updateVideo e uid i content description thumbnailLocalPath s) = Inl (APIError 403 m)) \<longrightarrow>
       (\<exists>r. findById v_id (castObjectId e i) (videos s) = Some r \<and> v_owner r \<noteq> uid)))"
  using assms
  by (auto simp: updateVideo_def toString_eq_iff split: option.splits prod.splits if_splits)

lemma deleteVideo_guard:
  assumes "isValidObjectId e i"
  shows
   "((findById v_id (castObjectId e i) (videos s) = None \<longrightarrow>
       deleteVideo e uid i s = (Inl (APIError 404 ''Video not found''), s))
    \<and> (\<forall>r. findById v_id (castObjectId e i) (videos s) = Some r \<and> v_owner r \<noteq> uid \<longrightarrow>
       deleteVideo e uid i s =
         (Inl (APIError 403 ''You are not authorized to delete this video''), s))
    \<and> ((\<exists>m. fst (deleteVideo e uid i s) = Inl (APIError 403 m)) \<longrightarrow>
       (\<exists>r. findById v_id (castObjectId e i) (videos s) = Some r \<and> v_owner r \<noteq> uid)))"
  using assms
  by (auto simp: deleteVideo_def toString_eq_iff split: option.splits prod.splits if_splits)

lemma togglePublishStatus_guard:
  assumes "isValidObjectId e i"
  shows
   "((findById v_id (castObjectId e i) (videos s) = None \<longrightarrow>
       togglePublishStatus e uid i s = (Inl (APIError 404 ''Video not found''), s))
    \<and> (\<forall>r. findById v_id (castObjectId e i) (videos s) = Some r \<and> v_owner r \<noteq> uid \<longrightarrow>
       togglePublishStatus e uid i s =
         (Inl (APIError 403 ''You are not authorized to update this video''), s))
    \<and> ((\<exists>m. fst (togglePublishStatus e uid i s) = Inl (APIError 403 m)) \<longrightarrow>
       (\<exists>r. findById v_id (castObjectId e i) (videos s) = Some r \<and> v_owner r \<noteq> uid)))"
  using assms
  by (auto simp: togglePublishStatus_def toString_eq_iff split: option.splits prod.splits if_splits)

text \<open>
  C2, amended. For every operation that changes or deletes a tweet, a playlist, a
  comment or a video, when its identifier parameters are well-formed and (for the four
  update operations, which validate their text field before the lookup) the required
  text is not blank: the reply is 404 when no document has the identifier the parameter
  spells; it is 403 when the document found is owned by someone other than the
  requester, and only then; in either case the store is returned unchanged.
\<close>

theorem ownership_guard:
  assumes "isValidObjectId e i" "isValidObjectId e vid" "\<not> blank content"
  shows
   "((findById t_id (castObjectId e i) (tweets s) = None \<longrightarrow>
       updateTweet e uid i content s = (Inl (APIError 404 ''Tweet not found''), s))
    \<and> (\<forall>r. findById t_id (castObjectId e i) (tweets s) = Some r \<and> t_owner r \<noteq> uid \<longrightarrow>
       updateTweet e uid i content s =
         (Inl (APIError 403 ''You are not authorized to update this tweet''), s))
    \<and> ((\<exists>m. fst (updateTweet e uid i content s) = Inl (APIError 403 m)) \<longrightarrow>
       (\<exists>r. findById t_id (castObjectId e i) (tweets s) = Some r \<and> t_owner r \<noteq> uid)))
 \<and> ((findById t_id (castObjectId e i) (tweets s) = None \<longrightarrow>
       deleteTweet e uid i s = (Inl (APIError 404 ''Tweet not found''), s))
    \<and> (\<forall>r. findById t_id (castObjectId e i) (tweets s) = Some r \<and> t_owner r \<noteq> uid \<longrightarrow>
       deleteTweet e uid i s =
         (Inl (APIError 403 ''You are not authorized to delete this tweet''), s))
    \<and> ((\<exists>m. fst (deleteTweet e uid i s) = Inl (APIError 403 m)) \<longrightarrow>
       (\<exists>r. findById t_id (castObjectId e i) (tweets s) = Some r \<and> t_owner r \<noteq> uid)))
 \<and> ((findById p_id (castObjectId e i) (playlists s) = None \<longrightarrow>
       addVideoToPlaylist e uid i vid s = (Inl (APIError 404 ''Playlist not found''), s))
    \<and> (\<forall>r. findById p_id (castObjectId e i) (playlists s) = Some r \<and> p_owner r \<noteq> uid \<longrightarrow>
       addVideoToPlaylist e uid i vid s =
         (Inl (APIError 403 ''You are not authorized to update this playlist''), s))
    \<and> ((\<exists>m. fst (addVideoToPlaylist e uid i vid s) = Inl (APIError 403 m)) \<longrightarrow>
       (\<exists>r. findById p_id (castObjectId e i) (playlists s) = Some r \<and> p_owner r \<noteq> uid)))
 \<and> ((findById p_id (castObjectId e i) (playlists s) = None \<longrightarrow>
       removeVideoFromPlaylist e uid i vid s = (Inl (APIError 404 ''Playlist not found''), s))
    \<and> (\<forall>r. findById p_id (castObjectId e i) (playlists s) = Some r \<and> p_owner r \<noteq> uid \<longrightarrow>
       removeVideoFromPlaylist e uid i vid s =
         (Inl (APIError 403 ''You are not authorized to update this playlist''), s))
    \<and> ((\<exists>m. fst (removeVideoFromPlaylist e uid i vid s) = Inl (APIError 403 m)) \<longrightarrow>
       (\<exists>r. findById p_id (castObjectId e i) (playlists s) = Some r \<and> p_owner r \<noteq> uid)))
 \<and> ((findById p_id (castObjectId e i) (playlists s) = None \<longrightarrow>
       deletePlaylist e uid i s = (Inl (APIError 404 ''Playlist not found''), s))
    \<and> (\<forall>r. findById p_id (castObjectId e i) (playlists s) = Some r \<and> p_owner r \<noteq> uid \<longrightarrow>
       deletePlaylist e uid i s =
         (Inl (APIError 403 ''You are not authorized to delete this playlist''), s))
    \<and> ((\<exists>m. fst (deletePlaylist e uid i s) = Inl (APIError 403 m)) \<longrightarrow>
       (\<exists>r. findById p_id (castObjectId e i) (playlists s) = Some r \<and> p_owner r \<noteq> uid)))
 \<and> ((findById p_id (castObjectId e i) (playlists s) = None \<longrightarrow>
       updatePlaylist e uid i content description s = (Inl (APIError 404 ''Playlist not found''), s))
    \<and> (\<forall>r. findById p_id (castObjectId e i) (playlists s) = Some r \<and> p_owner r \<noteq> uid \<longrightarrow>
       updatePlaylist e uid i content description s =
         (Inl (APIError 403 ''You are not authorized to update this playlist''), s))
    \<and> ((\<exists>m. fst (updatePlaylist e uid i content description s) = Inl (APIError 403 m)) \<longrightarrow>
       (\<exists>r. findById p_id (castObjectId e i) (playlists s) = Some r \<and> p_owner r \<noteq> uid)))
 \<and> ((findById c_id (castObjectId e i) (comments s) = None \<longrightarrow>
       updateComment e uid i content s = (Inl (APIError 404 ''Comment not found''), s))
    \<and> (\<forall>r. findById c_id (castObjectId e i) (comments s) = Some r \<and> c_owner r \<noteq> uid \<longrightarrow>
       updateComment e uid i content s =
         (Inl (APIError 403 ''You are not authorized to update this comment''), s))
    \<and> ((\<exists>m. fst (updateComment e uid i content s) = Inl (APIError 403 m)) \<longrightarrow>
       (\<exists>r. findById c_id (castObjectId e i) (comments s) = Some r \<and> c_owner r \<noteq> uid)))
 \<and> ((findById c_id (castObjectId e i) (comments s) = None \<longrightarrow>
       deleteComment e uid i s = (Inl (APIError 404 ''Comment not found''), s))
    \<and> (\<forall>r. findById c_id (castObjectId e i) (comments s) = Some r \<and> c_owner r \<noteq> uid \<longrightarrow>
       deleteComment e uid i s =
         (Inl (APIError 403 ''You are not authorized to delete this comment''), s))
    \<and> ((\<exists>m. fst (deleteComment e uid i s) = Inl (APIError 403 m)) \<longrightarrow>
       (\<exists>r. findById c_id (castObjectId e i) (comments s) = Some r \<and> c_owner r \<noteq> uid)))
 \<and> ((findById v_id (castObjectId e i) (videos s) = None \<longrightarrow>
       updateVideo e uid i content description thumbnailLocalPath s = (Inl (APIError 404 ''Video not found''), s))
    \<and> (\<forall>r. findById v_id (castObjectId e i) (videos s) = Some r \<and> v_owner r \<noteq> uid \<longrightarrow>
       updateVideo e uid i content description thumbnailLocalPath s =
         (Inl (APIError 403 ''You are not authorized to update this video''), s))
    \<and> ((\<exists>m. fst (updateVideo e uid i content description thumbnailLocalPath s) = Inl (APIError 403 m)) \<longrightarrow>
       (\<exists>r. findById v_id (castObjectId e i) (videos s) = Some r \<and> v_owner r \<noteq> uid)))
 \<and> ((findById v_id (castObjectId e i) (videos s) = None \<longrightarrow>
       deleteVideo e uid i s = (Inl (APIError 404 ''Video not found''), s))
    \<and> (\<forall>r. findById v_id (castObjectId e i) (videos s) = Some r \<and> v_owner r \<noteq> uid \<longrightarrow>
       deleteVideo e uid i s =
         (Inl (APIError 403 ''You are not authorized to delete this video''), s))
    \<and> ((\<exists>m. fst (deleteVideo e uid i s) = Inl (APIError 403 m)) \<longrightarrow>
       (\<exists>r. findById v_id (castObjectId e i) (videos s) = Some r \<and> v_owner r \<noteq> uid)))
 \<and> ((findById v_id (castObjectId e i) (videos s) = None \<longrightarrow>
       togglePublishStatus e uid i s = (Inl (APIError 404 ''Video not found''), s))
    \<and> (\<forall>r. findById v_id (castObjectId e i) (videos s) = Some r \<and> v_owner r \<noteq> uid \<longrightarrow>
       togglePublishStatus e uid i s =
         (Inl (APIError 403 ''You are not authorized to update this video''), s))
    \<and> ((\<exists>m. fst (togglePublishStatus e uid i s) = Inl (APIError 403 m)) \<longrightarrow>
       (\<exists>r. findById v_id (castObjectId e i) (videos s) = Some r \<and> v_owner r \<noteq> uid)))"
  by (rule conjI[OF updateTweet_guard[OF assms(1,3)]
      conjI[OF deleteTweet_guard[OF assms(1)]
      conjI[OF addVideoToPlaylist_guard[OF assms(1,2)]
      conjI[OF removeVideoFromPlaylist_guard[OF assms(1,2)]
      conjI[OF deletePlaylist_guard[OF assms(1)]
      conjI[OF updatePlaylist_guard[OF assms(1,3)]
      conjI[OF updateComment_guard[OF assms(1,3)]
      conjI[OF deleteComment_guard[OF assms(1)]
      conjI[OF updateVideo_guard[OF assms(1,3)]
      conjI[OF deleteVideo_guard[OF assms(1)]
      togglePublishStatus_guard[OF assms(1)]]]]]]]]]]])

theorem ownership_guard_witness:
  "updateTweet (sampleEnv idSix 9) bob idOne (Some ''hi'') aliceStore =
     (Inl (APIError 403 ''You are not authorized to update this tweet''), aliceStore)
   \<and> updateTweet (sampleEnv idSix 9) bob idOne (Some ''hi'') emptyStore =
     (Inl (APIError 404 ''Tweet not found''), emptyStore)
   \<and> deletePlaylist (sampleEnv idSix 9) bob idTenUpper tenStore =
     (Inl (APIError 403 ''You are not authorized to delete this playlist''), tenStore)"
proof -
  let ?e = "sampleEnv idSix 9"
  have v: "isValidObjectId ?e idOne" "isValidObjectId ?e idFour" "isValidObjectId ?e idTenUpper"
    by (simp_all add: sampleEnv_sel hex_ids)
  have c: "castObjectId ?e idOne = ObjectId idOne" "castObjectId ?e idTenUpper = ObjectId idTen"
    by (simp_all add: sampleEnv_sel hexCast_ids)
  have found: "findById t_id (castObjectId ?e idOne) (tweets aliceStore) = Some aliceTweet
      \<and> t_owner aliceTweet \<noteq> bob"
    unfolding c by (simp add: aliceStore_sel findById_def aliceTweet_def alice_neq_bob)
  have absent: "findById t_id (castObjectId ?e idOne) (tweets emptyStore) = None"
    by (simp add: emptyStore_sel findById_def)
  have found': "findById p_id (castObjectId ?e idTenUpper) (playlists tenStore) = Some tenPlaylist
      \<and> p_owner tenPlaylist \<noteq> bob"
    unfolding c by (simp add: tenStore_def findById_def tenPlaylist_def alice_neq_bob)
  have a: "updateTweet ?e bob idOne (Some ''hi'') aliceStore =
     (Inl (APIError 403 ''You are not authorized to update this tweet''), aliceStore)"
    using ownership_guard[where s=aliceStore and uid=bob, OF v(1,2) not_blank_hi, THEN conjunct1]
      found
    by blast
  have b: "updateTweet ?e bob idOne (Some ''hi'') emptyStore =
     (Inl (APIError 404 ''Tweet not found''), emptyStore)"
    using ownership_guard[where s=emptyStore and uid=bob, OF v(1,2) not_blank_hi, THEN conjunct1]
      absent
    by blast
  have c': "deletePlaylist ?e bob idTenUpper tenStore =
     (Inl (APIError 403 ''You are not authorized to delete this playlist''), tenStore)"
    using ownership_guard[where s=tenStore and uid=bob, OF v(3,2) not_blank_hi,
        THEN conjunct2, THEN conjunct2, THEN conjunct2, THEN conjunct2, THEN conjunct1] found'
    by blast
  show ?thesis by (rule conjI[OF a conjI[OF b c']])
qed

theorem ownership_guard_counterexample:
  "isValidObjectId (sampleEnv idSix 9) idOne
   \<and> findById t_id (castObjectId (sampleEnv idSix 9) idOne) (tweets emptyStore) = None
   \<and> updateTweet (sampleEnv idSix 9) alice idOne (Some ''   '') emptyStore =
       (Inl (APIError 400 ''Tweet content is required''), emptyStore)"
  by (simp add: sampleEnv_sel hex_ids emptyStore_sel findById_def updateTweet_def blank_spaces)

subsection \<open>The view counter\<close>

lemma findById_filter_None:
  "findById idf i ds = None \<Longrightarrow> filter (\<lambda>d. idf d = i) ds = []"
  by (simp add: findById_def find_None_iff filter_empty_conv)

lemma findById_filter_Some:
  "findById idf i ds = Some d \<Longrightarrow> \<exists>rest. filter (\<lambda>d. idf d = i) ds = d # rest"
  unfolding findById_def by (induction ds) (auto split: if_splits)

lemma findById_SomeD: "findById idf i ds = Some d \<Longrightarrow> idf d = i \<and> d \<in> set ds"
  by (auto simp: findById_def find_Some_iff)

lemma findByIdAndUpdate_None:
  "findById idf i ds = None \<Longrightarrow> findByIdAndUpdate idf i f ds = (None, ds)"
  unfolding findById_def by (induction ds) (auto split: if_splits)

lemma findByIdAndUpdate_fst:
  "findById idf i ds = Some d \<Longrightarrow> fst (findByIdAndUpdate idf i f ds) = Some (f d)"
  unfolding findById_def by (induction ds) (auto split: if_splits prod.splits)

lemma findByIdAndUpdate_same:
  "findById idf i ds = Some d \<Longrightarrow> idf (f d) = i \<Longrightarrow>
   findById idf i (snd (findByIdAndUpdate idf i f ds)) = Some (f d)"
  unfolding findById_def by (induction ds) (auto split: if_splits prod.splits)

lemma findByIdAndUpdate_other:
  "j \<noteq> i \<Longrightarrow> (\<And>d. idf d = i \<Longrightarrow> idf (f d) = i) \<Longrightarrow>
   findById idf j (snd (findByIdAndUpdate idf i f ds)) = findById idf j ds"
  unfolding findById_def by (induction ds) (auto split: if_splits prod.splits)

lemma getVideoById_malformed:
  "\<not> isValidObjectId e i \<Longrightarrow>
   getVideoById e u i s = (Inl (APIError 400 ''Invalid video ID''), s)"
  by (simp add: getVideoById_def)

lemma getVideoById_absent:
  "isValidObjectId e i \<Longrightarrow> findById v_id (castObjectId e i) (videos s) = None \<Longrightarrow>
   getVideoById e u i s = (Inl (APIError 404 ''Video not found''), s)"
  by (simp add: getVideoById_def findById_filter_None)

lemma getVideoById_found:
  assumes "isValidObjectId e i" "findById v_id (castObjectId e i) (videos s) = Some v"
  shows "getVideoById e u i s =
     (Inr (200, APIResponse 200 (videoDetail s u v) ''Video fetched successfully''),
      s\<lparr>videos := snd (findByIdAndUpdate v_id (castObjectId e i)
                         (\<lambda>v. v\<lparr>v_views := v_views v + 1, v_updatedAt := now e\<rparr>)
                         (videos s))\<rparr>)"
proof -
  from assms(2) obtain rest where
    "filter (\<lambda>v. v_id v = castObjectId e i) (videos s) = v # rest"
    using findById_filter_Some by fastforce
  with assms(1) show ?thesis by (simp add: getVideoById_def)
qed

lemma getVideoById_stored:
  assumes "isValidObjectId e i" "findById v_id (castObjectId e i) (videos s) = Some v"
  shows "findById v_id (castObjectId e i) (videos (snd (getVideoById e u i s))) =
     Some (v\<lparr>v_views := v_views v + 1, v_updatedAt := now e\<rparr>)"
proof -
  from assms(2) have "v_id v = castObjectId e i" by (simp add: findById_SomeD)
  then have "findById v_id (castObjectId e i) (snd (findByIdAndUpdate v_id (castObjectId e i)
       (\<lambda>v. v\<lparr>v_views := v_views v + 1, v_updatedAt := now e\<rparr>) (videos s))) =
     Some (v\<lparr>v_views := v_views v + 1, v_updatedAt := now e\<rparr>)"
    using assms(2) by (simp add: findByIdAndUpdate_same)
  then show ?thesis by (simp add: getVideoById_found[OF assms])
qed

lemma getVideoById_success:
  assumes "getVideoById e u i s = (Inr r, s')"
  shows "isValidObjectId e i \<and> (\<exists>v. findById v_id (castObjectId e i) (videos s) = Some v)"
proof (cases "isValidObjectId e i")
  case False
  with assms show ?thesis by (simp add: getVideoById_malformed)
next
  case True
  with assms show ?thesis
    by (cases "findById v_id (castObjectId e i) (videos s)") (simp_all add: getVideoById_absent)
qed

text \<open>
  C3. A video detail fetch that succeeds returns the read model assembled from the store
  as it was, and leaves the video the identifier spells stored with its view counter one
  higher, whoever the requester is (or none); a second fetch of the same video, by any
  well-formed spelling of its identifier, at a later clock reading and by any requester,
  then succeeds as well and leaves the counter two higher than at the start.
\<close>

theorem view_counter:
  assumes "getVideoById e u1 i s = (Inr r1, s1)"
    and "isValidObjectId e j" "castObjectId e j = castObjectId e i"
  shows "\<exists>v. findById v_id (castObjectId e i) (videos s) = Some v
     \<and> r1 = (200, APIResponse 200 (videoDetail s u1 v) ''Video fetched successfully'')
     \<and> findById v_id (castObjectId e i) (videos s1) =
         Some (v\<lparr>v_views := v_views v + 1, v_updatedAt := now e\<rparr>)
     \<and> (\<exists>r2 s2. getVideoById (e\<lparr>now := t\<rparr>) u2 j s1 = (Inr r2, s2)
          \<and> findById v_id (castObjectId e i) (videos s2) =
              Some (v\<lparr>v_views := v_views v + 2, v_updatedAt := t\<rparr>))"
proof -
  from assms(1) obtain v where ok: "isValidObjectId e i"
    and v: "findById v_id (castObjectId e i) (videos s) = Some v"
    using getVideoById_success by blast
  let ?v1 = "v\<lparr>v_views := v_views v + 1, v_updatedAt := now e\<rparr>"
  let ?e2 = "e\<lparr>now := t\<rparr>"
  from assms(2,3) have ok2: "isValidObjectId ?e2 j"
    and c2: "castObjectId ?e2 j = castObjectId e i" by simp_all
  from assms(1) have s1: "s1 = snd (getVideoById e u1 i s)" by simp
  from assms(1) have r1: "r1 = (200, APIResponse 200 (videoDetail s u1 v) ''Video fetched successfully'')"
    by (simp add: getVideoById_found[OF ok v])
  have one: "findById v_id (castObjectId e i) (videos s1) = Some ?v1"
    unfolding s1 using ok v by (rule getVideoById_stored)
  then have one': "findById v_id (castObjectId ?e2 j) (videos s1) = Some ?v1"
    by (simp only: c2)
  have two: "findById v_id (castObjectId e i) (videos (snd (getVideoById ?e2 u2 j s1))) =
      Some (?v1\<lparr>v_views := v_views ?v1 + 1, v_updatedAt := now ?e2\<rparr>)"
    using getVideoById_stored[OF ok2 one', of u2] by (simp only: c2)
  have "getVideoById ?e2 u2 j s1 =
      (Inr (200, APIResponse 200 (videoDetail s1 u2 ?v1) ''Video fetched successfully''),
       snd (getVideoById ?e2 u2 j s1))"
    using getVideoById_found[OF ok2 one', of u2] by simp
  with v r1 one two show ?thesis by auto
qed

lemma tenStore_sel: "videos tenStore = [tenVideo]" "playlists tenStore = [tenPlaylist]"
  by (simp_all add: tenStore_def)

theorem view_counter_witness:
  "findById v_id (ObjectId idTen)
     (videos (snd (getVideoById ((sampleEnv idSix 10)\<lparr>now := 11\<rparr>) (Some bob) idTen
        (snd (getVideoById (sampleEnv idSix 10) None idTenUpper tenStore))))) =
   Some (tenVideo\<lparr>v_views := 5, v_updatedAt := 11\<rparr>)"
proof -
  let ?e1 = "sampleEnv idSix 10"
  have v: "isValidObjectId ?e1 idTenUpper" "isValidObjectId ?e1 idTen"
    by (simp_all add: sampleEnv_sel hex_ids)
  have c: "castObjectId ?e1 idTenUpper = ObjectId idTen" "castObjectId ?e1 idTen = ObjectId idTen"
    by (simp_all add: sampleEnv_sel hexCast_ids)
  have f: "findById v_id (castObjectId ?e1 idTenUpper) (videos tenStore) = Some tenVideo"
    unfolding c by (simp add: tenStore_sel findById_def tenVideo_def)
  have g: "getVideoById ?e1 None idTenUpper tenStore =
     (Inr (200, APIResponse 200 (videoDetail tenStore None tenVideo)
        ''Video fetched successfully''), snd (getVideoById ?e1 None idTenUpper tenStore))"
    by (simp add: getVideoById_found[OF v(1) f])
  have same: "castObjectId ?e1 idTen = castObjectId ?e1 idTenUpper"
    by (simp only: c)
  from view_counter[OF g v(2) same, of 11 "Some bob"] f
  obtain r2 s2 where
    "getVideoById (?e1\<lparr>now := 11\<rparr>) (Some bob) idTen
       (snd (getVideoById ?e1 None idTenUpper tenStore)) = (Inr r2, s2)"
    "findById v_id (castObjectId ?e1 idTenUpper) (videos s2) =
       Some (tenVideo\<lparr>v_views := v_views tenVideo + 2, v_updatedAt := 11\<rparr>)"
    by auto
  then show ?thesis unfolding c by (simp add: tenVideo_def)
qed

text \<open>
  C9. The \<open>views\<close> of the read model a successful fetch returns is the value stored
  before the call, while the value stored after the call is one higher; a fetch that
  fails, with 400 on a malformed identifier or with 404 when no video has the
  identifier the parameter spells, returns the store as it was.
\<close>

theorem views_read_before_increment:
  "(\<not> isValidObjectId e i \<longrightarrow>
      getVideoById e u i s = (Inl (APIError 400 ''Invalid video ID''), s))
   \<and> (isValidObjectId e i \<and> findById v_id (castObjectId e i) (videos s) = None \<longrightarrow>
      getVideoById e u i s = (Inl (APIError 404 ''Video not found''), s))
   \<and> (\<forall>v. isValidObjectId e i \<and> findById v_id (castObjectId e i) (videos s) = Some v \<longrightarrow>
      (\<exists>d. fst (getVideoById e u i s) =
             Inr (200, APIResponse 200 d ''Video fetched successfully'')
           \<and> vd_views d = v_views v)
      \<and> (\<exists>v'. findById v_id (castObjectId e i) (videos (snd (getVideoById e u i s))) = Some v'
           \<and> v_views v' = v_views v + 1))
   \<and> (\<forall>err. fst (getVideoById e u i s) = Inl err \<longrightarrow> snd (getVideoById e u i s) = s)"
proof (intro conjI allI impI)
  assume "\<not> isValidObjectId e i"
  then show "getVideoById e u i s = (Inl (APIError 400 ''Invalid video ID''), s)"
    by (rule getVideoById_malformed)
next
  assume "isValidObjectId e i \<and> findById v_id (castObjectId e i) (videos s) = None"
  then show "getVideoById e u i s = (Inl (APIError 404 ''Video not found''), s)"
    by (simp add: getVideoById_absent)
next
  fix v assume a: "isValidObjectId e i \<and> findById v_id (castObjectId e i) (videos s) = Some v"
  then have "fst (getVideoById e u i s) =
      Inr (200, APIResponse 200 (videoDetail s u v) ''Video fetched successfully'')"
    by (simp add: getVideoById_found)
  moreover have "vd_views (videoDetail s u v) = v_views v"
    by (simp add: videoDetail_def Let_def)
  ultimately show "\<exists>d. fst (getVideoById e u i s) =
             Inr (200, APIResponse 200 d ''Video fetched successfully'')
           \<and> vd_views d = v_views v"
    by blast
  from a show "\<exists>v'. findById v_id (castObjectId e i) (videos (snd (getVideoById e u i s))) = Some v'
           \<and> v_views v' = v_views v + 1"
    by (simp add: getVideoById_stored)
next
  fix err assume f: "fst (getVideoById e u i s) = Inl err"
  show "snd (getVideoById e u i s) = s"
  proof (cases "isValidObjectId e i")
    case False
    then show ?thesis by (simp add: getVideoById_malformed)
  next
    case True
    with f show ?thesis
      by (cases "findById v_id (castObjectId e i) (videos s)")
         (simp_all add: getVideoById_absent getVideoById_found)
  qed
qed

theorem views_read_before_increment_witness:
  "getVideoById (sampleEnv idSix 10) (Some bob) ''not-an-id'' tenStore =
     (Inl (APIError 400 ''Invalid video ID''), tenStore)
   \<and> getVideoById (sampleEnv idSix 10) (Some bob) idSix tenStore =
     (Inl (APIError 404 ''Video not found''), tenStore)
   \<and> (\<exists>d. fst (getVideoById (sampleEnv idSix 10) (Some bob) idTenUpper tenStore) =
             Inr (200, APIResponse 200 d ''Video fetched successfully'')
           \<and> vd_views d = 3)
   \<and> (\<exists>v'. findById v_id (ObjectId idTen)
             (videos (snd (getVideoById (sampleEnv idSix 10) (Some bob) idTenUpper tenStore))) =
             Some v' \<and> v_views v' = 4)"
proof -
  let ?e = "sampleEnv idSix 10"
  have c: "castObjectId ?e idTenUpper = ObjectId idTen" "castObjectId ?e idSix = ObjectId idSix"
    by (simp_all add: sampleEnv_sel hexCast_ids)
  have bad: "\<not> isValidObjectId ?e ''not-an-id''"
    by (simp add: sampleEnv_sel not_hex)
  have "findById v_id (castObjectId ?e idSix) (videos tenStore) = None"
    unfolding c by (simp add: tenStore_sel findById_def tenVideo_def idTen_def idSix_def)
  then have absent: "isValidObjectId ?e idSix
      \<and> findById v_id (castObjectId ?e idSix) (videos tenStore) = None"
    by (simp add: sampleEnv_sel hex_ids)
  have "findById v_id (castObjectId ?e idTenUpper) (videos tenStore) = Some tenVideo"
    unfolding c by (simp add: tenStore_sel findById_def tenVideo_def)
  then have found: "isValidObjectId ?e idTenUpper
      \<and> findById v_id (castObjectId ?e idTenUpper) (videos tenStore) = Some tenVideo"
    by (simp add: sampleEnv_sel hex_ids)
  have three: "v_views tenVideo = 3" by (simp add: tenVideo_def)
  have a: "getVideoById ?e (Some bob) ''not-an-id'' tenStore =
     (Inl (APIError 400 ''Invalid video ID''), tenStore)"
    using views_read_before_increment[of ?e "''not-an-id''" "Some bob" tenStore] bad by blast
  have b: "getVideoById ?e (Some bob) idSix tenStore =
     (Inl (APIError 404 ''Video not found''), tenStore)"
    using views_read_before_increment[of ?e idSix "Some bob" tenStore] absent by blast
  have "(\<exists>d. fst (getVideoById ?e (Some bob) idTenUpper tenStore) =
             Inr (200, APIResponse 200 d ''Video fetched successfully'')
           \<and> vd_views d = v_views tenVideo)
      \<and> (\<exists>v'. findById v_id (castObjectId ?e idTenUpper)
              (videos (snd (getVideoById ?e (Some bob) idTenUpper tenStore))) =
             Some v' \<and> v_views v' = v_views tenVideo + 1)"
    using views_read_before_increment[of ?e idTenUpper "Some bob" tenStore] found by blast
  then have c': "(\<exists>d. fst (getVideoById ?e (Some bob) idTenUpper tenStore) =
             Inr (200, APIResponse 200 d ''Video fetched successfully'')
           \<and> vd_views d = 3)
      \<and> (\<exists>v'. findById v_id (ObjectId idTen)
              (videos (snd (getVideoById ?e (Some bob) idTenUpper tenStore))) =
             Some v' \<and> v_views v' = 4)"
    unfolding c three by simp
  from a b c' show ?thesis by blast
qed

subsection \<open>The videos of a playlist\<close>

lemma addVideoToPlaylist_new:
  assumes "isValidObjectId e pid" "isValidObjectId e vid"
    "findById p_id (castObjectId e pid) (playlists s) = Some p" "p_owner p = uid"
    "vid \<notin> set (map toString (p_videos p))"
  shows "addVideoToPlaylist e uid pid vid s =
     (Inr (200, APIResponse 200
        (Some (p\<lparr>p_videos := p_videos p @ [castObjectId e vid], p_updatedAt := now e\<rparr>))
        ''Video added to playlist successfully''),
      s\<lparr>playlists := snd (findByIdAndUpdate p_id (castObjectId e pid)
             (\<lambda>p. p\<lparr>p_videos := p_videos p @ [castObjectId e vid], p_updatedAt := now e\<rparr>)
             (playlists s))\<rparr>)"
proof -
  let ?f = "\<lambda>p. p\<lparr>p_videos := p_videos p @ [castObjectId e vid], p_updatedAt := now e\<rparr>"
  obtain u ps where up: "findByIdAndUpdate p_id (castObjectId e pid) ?f (playlists s) = (u, ps)"
    by fastforce
  with findByIdAndUpdate_fst[OF assms(3), of ?f] have "u = Some (?f p)" by simp
  with assms up show ?thesis by (simp add: addVideoToPlaylist_def)
qed


lemma addVideoToPlaylist_stored:
  assumes "isValidObjectId e pid" "isValidObjectId e vid"
    "findById p_id (castObjectId e pid) (playlists s) = Some p" "p_owner p = uid"
    "vid \<notin> set (map toString (p_videos p))"
  shows "findById p_id (castObjectId e pid)
       (playlists (snd (addVideoToPlaylist e uid pid vid s))) =
     Some (p\<lparr>p_videos := p_videos p @ [castObjectId e vid], p_updatedAt := now e\<rparr>)"
proof -
  from assms(3) have "p_id p = castObjectId e pid" by (simp add: findById_SomeD)
  with assms(3) show ?thesis
    by (simp add: addVideoToPlaylist_new[OF assms] findByIdAndUpdate_same)
qed

text \<open>
  C4, at the failing input. The playlist \<open>idTen\<close> of \<open>alice\<close> holds the video \<open>idTen\<close>.
  Asked to add the same video under the upper-case spelling of its identifier, the
  handler finds no element of \<open>videos\<close> that prints as that string, answers 200 and
  stores the identifier a second time.
\<close>

theorem duplicate_video_by_spelling:
  "castObjectId (sampleEnv idSix 9) idTenUpper = ObjectId idTen
   \<and> p_videos tenPlaylist = [ObjectId idTen]
   \<and> addVideoToPlaylist (sampleEnv idSix 9) alice idTen idTenUpper tenStore =
     (Inr (200, APIResponse 200
        (Some (tenPlaylist\<lparr>p_videos := [ObjectId idTen, ObjectId idTen], p_updatedAt := 9\<rparr>))
        ''Video added to playlist successfully''),
      tenStore\<lparr>playlists :=
        [tenPlaylist\<lparr>p_videos := [ObjectId idTen, ObjectId idTen], p_updatedAt := 9\<rparr>]\<rparr>)"
proof -
  let ?e = "sampleEnv idSix 9"
  have v: "isValidObjectId ?e idTen" "isValidObjectId ?e idTenUpper"
    by (simp_all add: sampleEnv_sel hex_ids)
  have c: "castObjectId ?e idTenUpper = ObjectId idTen" "castObjectId ?e idTen = ObjectId idTen"
    by (simp_all add: sampleEnv_sel hexCast_ids)
  have f: "findById p_id (castObjectId ?e idTen) (playlists tenStore) = Some tenPlaylist"
    unfolding c by (simp add: tenStore_sel findById_def tenPlaylist_def)
  have o: "p_owner tenPlaylist = alice" and vs: "p_videos tenPlaylist = [ObjectId idTen]"
    by (simp_all add: tenPlaylist_def)
  have n: "idTenUpper \<notin> set (map toString (p_videos tenPlaylist))"
    by (simp add: vs spellings_differ)
  have "addVideoToPlaylist ?e alice idTen idTenUpper tenStore =
     (Inr (200, APIResponse 200
        (Some (tenPlaylist\<lparr>p_videos := p_videos tenPlaylist @ [castObjectId ?e idTenUpper],
                p_updatedAt := now ?e\<rparr>))
        ''Video added to playlist successfully''),
      tenStore\<lparr>playlists := snd (findByIdAndUpdate p_id (castObjectId ?e idTen)
             (\<lambda>p. p\<lparr>p_videos := p_videos p @ [castObjectId ?e idTenUpper],
                     p_updatedAt := now ?e\<rparr>)
             (playlists tenStore))\<rparr>)"
    using v f o n by (rule addVideoToPlaylist_new)
  then have "addVideoToPlaylist ?e alice idTen idTenUpper tenStore =
     (Inr (200, APIResponse 200
        (Some (tenPlaylist\<lparr>p_videos := [ObjectId idTen, ObjectId idTen], p_updatedAt := 9\<rparr>))
        ''Video added to playlist successfully''),
      tenStore\<lparr>playlists :=
        [tenPlaylist\<lparr>p_videos := [ObjectId idTen, ObjectId idTen], p_updatedAt := 9\<rparr>]\<rparr>)"
    unfolding c vs by (simp add: tenStore_sel sampleEnv_sel tenPlaylist_def)
  with c(1) vs show ?thesis by simp
qed

theorem duplicate_video_by_spelling_witness:
  "map p_videos
     (playlists (snd (addVideoToPlaylist (sampleEnv idSix 9) alice idTen idTenUpper tenStore))) =
   [[ObjectId idTen, ObjectId idTen]]"
  using duplicate_video_by_spelling by simp






subsection \<open>Validation of text and identifier\<close>

lemma trim_Nil_iff: "trim t = [] \<longleftrightarrow> list_all isWhiteSpace t"
proof
  assume "trim t = []"
  then have all: "\<forall>c \<in> set (dropWhile isWhiteSpace t). isWhiteSpace c"
    by (simp add: trim_def dropWhile_eq_Nil_conv)
  have "dropWhile isWhiteSpace t = []"
  proof (rule ccontr)
    assume ne: "dropWhile isWhiteSpace t \<noteq> []"
    then have "\<not> isWhiteSpace (hd (dropWhile isWhiteSpace t))" by (rule hd_dropWhile)
    moreover from ne have "hd (dropWhile isWhiteSpace t) \<in> set (dropWhile isWhiteSpace t)"
      by simp
    ultimately show False using all by blast
  qed
  then show "list_all isWhiteSpace t"
    by (simp add: dropWhile_eq_Nil_conv list_all_iff)
next
  assume "list_all isWhiteSpace t"
  then have "dropWhile isWhiteSpace t = []"
    by (simp add: dropWhile_eq_Nil_conv list_all_iff)
  then show "trim t = []"
    by (simp add: trim_def del: dropWhile_eq_Nil_conv)
qed

lemma blank_iff: "blank c = (case c of None \<Rightarrow> True | Some t \<Rightarrow> list_all isWhiteSpace t)"
  by (auto simp: blank_def trim_Nil_iff split: option.splits)

text \<open>
  C5, amended. The five operations that take both an identifier and a required text
  field make both checks before the store is touched, each ending in 400. \<open>updateVideo\<close>
  checks the identifier first and the title second. \<open>updateTweet\<close>, \<open>updateComment\<close>,
  \<open>addComment\<close> and \<open>updatePlaylist\<close> check the text first and the identifier second, so
  a request that fails both checks is answered with the content error.
\<close>

theorem validation_order:
  "(\<not> isValidObjectId e i \<longrightarrow>
      updateVideo e uid i content description thumbnailLocalPath s =
        (Inl (APIError 400 ''Invalid video ID''), s))
   \<and> (isValidObjectId e i \<and> blank content \<longrightarrow>
      updateVideo e uid i content description thumbnailLocalPath s =
        (Inl (APIError 400 ''Video title is required''), s))
   \<and> (blank content \<longrightarrow>
      updateTweet e uid i content s = (Inl (APIError 400 ''Tweet content is required''), s)
      \<and> updateComment e uid i content s =
          (Inl (APIError 400 ''Comment content is required''), s)
      \<and> addComment e uid i content s =
          (Inl (APIError 400 ''Comment content is required''), s)
      \<and> updatePlaylist e uid i content description s =
          (Inl (APIError 400 ''Playlist name is required''), s))
   \<and> (\<not> blank content \<and> \<not> isValidObjectId e i \<longrightarrow>
      updateTweet e uid i content s = (Inl (APIError 400 ''Invalid tweet ID''), s)
      \<and> updateComment e uid i content s = (Inl (APIError 400 ''Invalid comment ID''), s)
      \<and> addComment e uid i content s = (Inl (APIError 400 ''Invalid video ID''), s)
      \<and> updatePlaylist e uid i content description s =
          (Inl (APIError 400 ''Invalid playlist ID''), s))"
  by (simp add: updateVideo_def updateTweet_def updateComment_def addComment_def
      updatePlaylist_def)

theorem validation_order_witness:
  "updateVideo (sampleEnv idSix 9) alice ''not-an-id'' (Some ''   '') None None aliceStore =
     (Inl (APIError 400 ''Invalid video ID''), aliceStore)
   \<and> updateTweet (sampleEnv idSix 9) alice ''not-an-id'' (Some ''   '') aliceStore =
     (Inl (APIError 400 ''Tweet content is required''), aliceStore)
   \<and> updateTweet (sampleEnv idSix 9) alice ''not-an-id'' (Some ''hi'') aliceStore =
     (Inl (APIError 400 ''Invalid tweet ID''), aliceStore)
   \<and> updateVideo (sampleEnv idSix 9) alice idFour (Some ''   '') None None aliceStore =
     (Inl (APIError 400 ''Video title is required''), aliceStore)"
proof -
  let ?e = "sampleEnv idSix 9"
  have bad: "\<not> isValidObjectId ?e ''not-an-id''" and ok: "isValidObjectId ?e idFour"
    by (simp_all add: sampleEnv_sel not_hex hex_ids)
  note t = validation_order[where e = ?e and uid = alice and s = aliceStore
      and description = None and thumbnailLocalPath = None]
  have a: "updateVideo ?e alice ''not-an-id'' (Some ''   '') None None aliceStore =
     (Inl (APIError 400 ''Invalid video ID''), aliceStore)"
    using t[where i = "''not-an-id''" and content = "Some ''   ''"] bad by blast
  have b: "updateTweet ?e alice ''not-an-id'' (Some ''   '') aliceStore =
     (Inl (APIError 400 ''Tweet content is required''), aliceStore)"
    using t[where i = "''not-an-id''" and content = "Some ''   ''"] blank_spaces(1) by blast
  have c: "updateTweet ?e alice ''not-an-id'' (Some ''hi'') aliceStore =
     (Inl (APIError 400 ''Invalid tweet ID''), aliceStore)"
    using t[where i = "''not-an-id''" and content = "Some ''hi''"] bad not_blank_hi by blast
  have d: "updateVideo ?e alice idFour (Some ''   '') None None aliceStore =
     (Inl (APIError 400 ''Video title is required''), aliceStore)"
    using t[where i = idFour and content = "Some ''   ''"] ok blank_spaces(1) by blast
  show ?thesis by (rule conjI[OF a conjI[OF b conjI[OF c d]]])
qed

theorem validation_order_counterexample:
  "\<not> isValidObjectId (sampleEnv idSix 9) ''not-an-id'' \<and> blank (Some ''   '')
   \<and> updateTweet (sampleEnv idSix 9) alice ''not-an-id'' (Some ''   '') aliceStore =
       (Inl (APIError 400 ''Tweet content is required''), aliceStore)"
  by (simp add: sampleEnv_sel not_hex blank_spaces updateTweet_def)

text \<open>
  C8, amended. A tweet or a comment whose content is missing, empty or white space only
  is refused with 400 and the message that the content is required, and nothing is
  stored. A tweet with any other content is stored with exactly that content and
  answered with 201; so is a comment, provided the video identifier is well-formed
  (otherwise the reply is 400 for the identifier).
\<close>

theorem create_content_required:
  "blank content = (case content of None \<Rightarrow> True | Some t \<Rightarrow> list_all isWhiteSpace t)
   \<and> (blank content \<longrightarrow>
      createTweet e uid content s = (Inl (APIError 400 ''Tweet content is required''), s)
      \<and> addComment e uid videoId content s =
          (Inl (APIError 400 ''Comment content is required''), s))
   \<and> (\<forall>t. content = Some t \<and> \<not> blank content \<longrightarrow>
      createTweet e uid content s =
        (Inr (201, APIResponse 201
           \<lparr>t_id = newObjectId e, t_content = t, t_owner = uid, t_createdAt = now e,
            t_updatedAt = now e\<rparr> ''Tweet created successfully''),
         s\<lparr>tweets := tweets s @
           [\<lparr>t_id = newObjectId e, t_content = t, t_owner = uid, t_createdAt = now e,
             t_updatedAt = now e\<rparr>]\<rparr>))
   \<and> (\<forall>t. content = Some t \<and> \<not> blank content \<and> isValidObjectId e videoId \<longrightarrow>
      addComment e uid videoId content s =
        (Inr (201, APIResponse 201
           \<lparr>c_id = newObjectId e, c_content = t, c_video = castObjectId e videoId, c_owner = uid,
            c_createdAt = now e, c_updatedAt = now e\<rparr> ''Comment added successfully''),
         s\<lparr>comments := comments s @
           [\<lparr>c_id = newObjectId e, c_content = t, c_video = castObjectId e videoId, c_owner = uid,
             c_createdAt = now e, c_updatedAt = now e\<rparr>]\<rparr>))
   \<and> (\<not> blank content \<and> \<not> isValidObjectId e videoId \<longrightarrow>
      addComment e uid videoId content s = (Inl (APIError 400 ''Invalid video ID''), s))"
  by (simp add: blank_iff[symmetric] createTweet_def addComment_def create_def)


lemma not_blank_padded: "\<not> blank (Some '' hi '')"
  by (simp add: blank_def trim_def isWhiteSpace_def)

theorem create_content_required_witness:
  "createTweet (sampleEnv idSix 9) alice (Some ''   '') emptyStore =
     (Inl (APIError 400 ''Tweet content is required''), emptyStore)
   \<and> addComment (sampleEnv idSix 9) alice idFour None emptyStore =
     (Inl (APIError 400 ''Comment content is required''), emptyStore)
   \<and> fst (createTweet (sampleEnv idSix 9) alice (Some ''hi'') emptyStore) =
     Inr (201, APIResponse 201
       \<lparr>t_id = ObjectId idSix, t_content = ''hi'', t_owner = alice, t_createdAt = 9, t_updatedAt = 9\<rparr>
       ''Tweet created successfully'')
   \<and> map c_content
       (comments (snd (addComment (sampleEnv idSix 9) alice idFour (Some '' hi '') emptyStore))) =
     ['' hi '']"
proof -
  let ?e = "sampleEnv idSix 9"
  have ok: "isValidObjectId ?e idFour" by (simp add: sampleEnv_sel hex_ids)
  note t = create_content_required[where e = ?e and uid = alice and s = emptyStore
      and videoId = idFour]
  have a: "createTweet ?e alice (Some ''   '') emptyStore =
     (Inl (APIError 400 ''Tweet content is required''), emptyStore)"
    using t[where content = "Some ''   ''"] blank_spaces(1) by blast
  have b: "addComment ?e alice idFour None emptyStore =
     (Inl (APIError 400 ''Comment content is required''), emptyStore)"
    using t[where content = None] blank_spaces(3) by blast
  have "createTweet ?e alice (Some ''hi'') emptyStore =
        (Inr (201, APIResponse 201
           \<lparr>t_id = newObjectId ?e, t_content = ''hi'', t_owner = alice, t_createdAt = now ?e,
            t_updatedAt = now ?e\<rparr> ''Tweet created successfully''),
         emptyStore\<lparr>tweets := tweets emptyStore @
           [\<lparr>t_id = newObjectId ?e, t_content = ''hi'', t_owner = alice, t_createdAt = now ?e,
             t_updatedAt = now ?e\<rparr>]\<rparr>)"
    using t[where content = "Some ''hi''"] not_blank_hi by blast
  then have c: "fst (createTweet ?e alice (Some ''hi'') emptyStore) =
     Inr (201, APIResponse 201
       \<lparr>t_id = ObjectId idSix, t_content = ''hi'', t_owner = alice, t_createdAt = 9, t_updatedAt = 9\<rparr>
       ''Tweet created successfully'')"
    by (simp add: sampleEnv_sel)
  have "addComment ?e alice idFour (Some '' hi '') emptyStore =
        (Inr (201, APIResponse 201
           \<lparr>c_id = newObjectId ?e, c_content = '' hi '', c_video = castObjectId ?e idFour, c_owner = alice,
            c_createdAt = now ?e, c_updatedAt = now ?e\<rparr> ''Comment added successfully''),
         emptyStore\<lparr>comments := comments emptyStore @
           [\<lparr>c_id = newObjectId ?e, c_content = '' hi '', c_video = castObjectId ?e idFour, c_owner = alice,
             c_createdAt = now ?e, c_updatedAt = now ?e\<rparr>]\<rparr>)"
    using t[where content = "Some '' hi ''"] not_blank_padded ok by blast
  then have d: "map c_content
       (comments (snd (addComment ?e alice idFour (Some '' hi '') emptyStore))) = ['' hi '']"
    by (simp add: emptyStore_sel)
  show ?thesis by (rule conjI[OF a conjI[OF b conjI[OF c d]]])
qed

theorem create_content_required_counterexample:
  "\<not> blank (Some ''hi'')
   \<and> addComment (sampleEnv idSix 9) alice ''not-an-id'' (Some ''hi'') emptyStore =
       (Inl (APIError 400 ''Invalid video ID''), emptyStore)"
  by (simp add: not_blank_hi addComment_def sampleEnv_sel not_hex)

subsection \<open>Malformed identifiers\<close>

text \<open>
  C7, amended. When an identifier route parameter is malformed, the handler ends in 400
  and returns the store it was given; the reply is fixed by the request alone (for the
  handlers that check a text field first, by whether that field is blank), so nothing
  was read from the store. The video listing does the same for a malformed \<open>userId\<close>
  filter that is not empty; an empty \<open>userId\<close> is no filter and is not checked.
\<close>

theorem malformed_identifier:
  assumes "\<not> isValidObjectId e i"
  shows
   "toggleVideoLike e uid i s = (Inl (APIError 400 ''Invalid video ID''), s)
    \<and> toggleCommentLike e uid i s = (Inl (APIError 400 ''Invalid comment ID''), s)
    \<and> toggleTweetLike e uid i s = (Inl (APIError 400 ''Invalid tweet ID''), s)
    \<and> getUserTweets e i s = (Inl (APIError 400 ''Invalid user ID''), s)
    \<and> updateTweet e uid i content s =
        (Inl (APIError 400 (if blank content then ''Tweet content is required''
                            else ''Invalid tweet ID'')), s)
    \<and> deleteTweet e uid i s = (Inl (APIError 400 ''Invalid tweet ID''), s)
    \<and> getVideoComments e i page limit s = (Inl (APIError 400 ''Invalid video ID''), s)
    \<and> addComment e uid i content s =
        (Inl (APIError 400 (if blank content then ''Comment content is required''
                            else ''Invalid video ID'')), s)
    \<and> updateComment e uid i content s =
        (Inl (APIError 400 (if blank content then ''Comment content is required''
                            else ''Invalid comment ID'')), s)
    \<and> deleteComment e uid i s = (Inl (APIError 400 ''Invalid comment ID''), s)
    \<and> getUserPlaylists e i s = (Inl (APIError 400 ''Invalid user ID''), s)
    \<and> getPlaylistById e i s = (Inl (APIError 400 ''Invalid playlist ID''), s)
    \<and> addVideoToPlaylist e uid i other s =
        (Inl (APIError 400 ''Invalid playlist or video ID''), s)
    \<and> addVideoToPlaylist e uid other i s =
        (Inl (APIError 400 ''Invalid playlist or video ID''), s)
    \<and> removeVideoFromPlaylist e uid i other s =
        (Inl (APIError 400 ''Invalid playlist or video ID''), s)
    \<and> removeVideoFromPlaylist e uid other i s =
        (Inl (APIError 400 ''Invalid playlist or video ID''), s)
    \<and> deletePlaylist e uid i s = (Inl (APIError 400 ''Invalid playlist ID''), s)
    \<and> updatePlaylist e uid i content description s =
        (Inl (APIError 400 (if blank content then ''Playlist name is required''
                            else ''Invalid playlist ID'')), s)
    \<and> getVideoById e requester i s = (Inl (APIError 400 ''Invalid video ID''), s)
    \<and> updateVideo e uid i content description thumbnailLocalPath s =
        (Inl (APIError 400 ''Invalid video ID''), s)
    \<and> deleteVideo e uid i s = (Inl (APIError 400 ''Invalid video ID''), s)
    \<and> togglePublishStatus e uid i s = (Inl (APIError 400 ''Invalid video ID''), s)
    \<and> (i \<noteq> [] \<longrightarrow>
         getAllVideos e page limit query sortBy sortType (Some i) s =
           (Inl (APIError 400 ''Invalid user ID''), s))"
proof -
  have likes: "toggleVideoLike e uid i s = (Inl (APIError 400 ''Invalid video ID''), s)"
      "toggleCommentLike e uid i s = (Inl (APIError 400 ''Invalid comment ID''), s)"
      "toggleTweetLike e uid i s = (Inl (APIError 400 ''Invalid tweet ID''), s)"
    using assms by (simp_all add: toggleVideoLike_def toggleCommentLike_def toggleTweetLike_def)
  have tweets: "getUserTweets e i s = (Inl (APIError 400 ''Invalid user ID''), s)"
      "updateTweet e uid i content s =
        (Inl (APIError 400 (if blank content then ''Tweet content is required''
                            else ''Invalid tweet ID'')), s)"
      "deleteTweet e uid i s = (Inl (APIError 400 ''Invalid tweet ID''), s)"
    using assms by (simp_all add: getUserTweets_def updateTweet_def deleteTweet_def)
  have comments: "getVideoComments e i page limit s = (Inl (APIError 400 ''Invalid video ID''), s)"
      "addComment e uid i content s =
        (Inl (APIError 400 (if blank content then ''Comment content is required''
                            else ''Invalid video ID'')), s)"
      "updateComment e uid i content s =
        (Inl (APIError 400 (if blank content then ''Comment content is required''
                            else ''Invalid comment ID'')), s)"
      "deleteComment e uid i s = (Inl (APIError 400 ''Invalid comment ID''), s)"
    using assms
    by (simp_all add: getVideoComments_def addComment_def updateComment_def deleteComment_def)
  have playlists: "getUserPlaylists e i s = (Inl (APIError 400 ''Invalid user ID''), s)"
      "getPlaylistById e i s = (Inl (APIError 400 ''Invalid playlist ID''), s)"
      "addVideoToPlaylist e uid i other s =
        (Inl (APIError 400 ''Invalid playlist or video ID''), s)"
      "addVideoToPlaylist e uid other i s =
        (Inl (APIError 400 ''Invalid playlist or video ID''), s)"
      "removeVideoFromPlaylist e uid i other s =
        (Inl (APIError 400 ''Invalid playlist or video ID''), s)"
      "removeVideoFromPlaylist e uid other i s =
        (Inl (APIError 400 ''Invalid playlist or video ID''), s)"
      "deletePlaylist e uid i s = (Inl (APIError 400 ''Invalid playlist ID''), s)"
      "updatePlaylist e uid i content description s =
        (Inl (APIError 400 (if blank content then ''Playlist name is required''
                            else ''Invalid playlist ID'')), s)"
    using assms
    by (simp_all add: getUserPlaylists_def getPlaylistById_def addVideoToPlaylist_def
        removeVideoFromPlaylist_def deletePlaylist_def updatePlaylist_def)
  have videos: "getVideoById e requester i s = (Inl (APIError 400 ''Invalid video ID''), s)"
      "updateVideo e uid i content description thumbnailLocalPath s =
        (Inl (APIError 400 ''Invalid video ID''), s)"
      "deleteVideo e uid i s = (Inl (APIError 400 ''Invalid video ID''), s)"
      "togglePublishStatus e uid i s = (Inl (APIError 400 ''Invalid video ID''), s)"
      "i \<noteq> [] \<longrightarrow>
         getAllVideos e page limit query sortBy sortType (Some i) s =
           (Inl (APIError 400 ''Invalid user ID''), s)"
    using assms
    by (simp_all add: getVideoById_def updateVideo_def deleteVideo_def togglePublishStatus_def
        getAllVideos_def falsy_def)
  show ?thesis
    by (intro conjI likes tweets comments playlists videos)
qed

theorem malformed_identifier_witness:
  "toggleVideoLike (sampleEnv idSix 9) alice ''not-an-id'' aliceStore =
     (Inl (APIError 400 ''Invalid video ID''), aliceStore)
   \<and> addVideoToPlaylist (sampleEnv idSix 9) alice idTwo ''not-an-id'' aliceStore =
     (Inl (APIError 400 ''Invalid playlist or video ID''), aliceStore)
   \<and> getAllVideos (sampleEnv idSix 9) None None None None None (Some ''not-an-id'') aliceStore =
     (Inl (APIError 400 ''Invalid user ID''), aliceStore)"
proof -
  have bad: "\<not> isValidObjectId (sampleEnv idSix 9) ''not-an-id''"
    by (simp add: sampleEnv_sel not_hex)
  have ne: "''not-an-id'' \<noteq> []" by simp
  note t = malformed_identifier[OF bad, where s = aliceStore and uid = alice]
  have a: "toggleVideoLike (sampleEnv idSix 9) alice ''not-an-id'' aliceStore =
     (Inl (APIError 400 ''Invalid video ID''), aliceStore)"
    using t by blast
  have b: "addVideoToPlaylist (sampleEnv idSix 9) alice idTwo ''not-an-id'' aliceStore =
     (Inl (APIError 400 ''Invalid playlist or video ID''), aliceStore)"
    using t[where other = idTwo] by blast
  have c: "getAllVideos (sampleEnv idSix 9) None None None None None (Some ''not-an-id'') aliceStore =
     (Inl (APIError 400 ''Invalid user ID''), aliceStore)"
    using t[where page = None and limit = None and query = None and sortBy = None
        and sortType = None] ne by blast
  show ?thesis by (rule conjI[OF a conjI[OF b c]])
qed

lemma aliceStore_users:
  "users aliceStore =
     [\<lparr>u_id = alice, u_username = ''alice'', u_fullName = ''Alice'', u_avatar = ''a.png''\<rparr>]"
  by (simp add: aliceStore_def)

theorem malformed_identifier_counterexample:
  "\<not> isValidObjectId (sampleEnv idSix 9) []
   \<and> getAllVideos (sampleEnv idSix 9) None None None None None (Some []) aliceStore =
     (Inr (200, APIResponse 200
        \<lparr>docs =
           [\<lparr>vj_video = aliceVideo2,
             vj_owner = Some \<lparr>o_id = alice, o_username = ''alice'', o_fullName = ''Alice'',
                              o_avatar = ''a.png''\<rparr>\<rparr>,
            \<lparr>vj_video = aliceVideo,
             vj_owner = Some \<lparr>o_id = alice, o_username = ''alice'', o_fullName = ''Alice'',
                              o_avatar = ''a.png''\<rparr>\<rparr>],
         totalDocs = 2, pg_limit = 10, pg_page = 1\<rparr>
        ''Videos fetched successfully''), aliceStore)"
  by (simp add: sampleEnv_sel not_hex getAllVideos_def falsy_def aliceStore_sel
      aliceStore_users sortOptions_def sortStage_def descending_def aggregatePaginate_def
      joinOwner_def lookupOwner_def projectOwner_def first_def aliceVideo_def aliceVideo2_def)

subsection \<open>The order of the list read models\<close>

lemma set_insertBy: "set (insertBy le x xs) = insert x (set xs)"
  by (induction xs) auto

lemma sorted_wrt_insertBy:
  assumes total: "\<And>a b. le a b \<or> le b a" and trans: "\<And>a b c. le a b \<Longrightarrow> le b c \<Longrightarrow> le a c"
  shows "sorted_wrt le xs \<Longrightarrow> sorted_wrt le (insertBy le x xs)"
proof (induction xs)
  case Nil
  then show ?case by simp
next
  case (Cons y ys)
  show ?case
  proof (cases "le x y")
    case True
    with Cons.prems trans show ?thesis by auto
  next
    case False
    with total have "le y x" by blast
    with Cons False show ?thesis by (auto simp: set_insertBy)
  qed
qed

lemma sorted_wrt_sortStage:
  assumes "\<And>a b. le a b \<or> le b a" and "\<And>a b c. le a b \<Longrightarrow> le b c \<Longrightarrow> le a c"
  shows "sorted_wrt le (sortStage le xs)"
  unfolding sortStage_def
  by (induction xs) (simp_all add: sorted_wrt_insertBy[OF assms])

lemma set_sortStage: "set (sortStage le xs) = set xs"
  unfolding sortStage_def by (induction xs) (simp_all add: set_insertBy)

lemma sorted_descending: "sorted_wrt (descending key) (sortStage (descending key) xs)"
  by (rule sorted_wrt_sortStage) (auto simp: descending_def)

lemma sorted_wrt_page:
  "sorted_wrt le xs \<Longrightarrow> sorted_wrt le (docs (aggregatePaginate xs page limit))"
  by (simp add: aggregatePaginate_def Let_def sorted_wrt_take sorted_wrt_drop)

lemma getUserTweets_sorted:
  "fst (getUserTweets e userId s) = Inr (c, APIResponse c' d m) \<Longrightarrow>
   sorted_wrt (descending tv_createdAt) d"
  by (auto simp: getUserTweets_def sorted_descending split: if_splits)

lemma getVideoComments_sorted:
  "fst (getVideoComments e videoId page limit s) = Inr (c, APIResponse c' d m) \<Longrightarrow>
   sorted_wrt (descending cv_createdAt) (docs d)"
  by (auto simp: getVideoComments_def sorted_descending sorted_wrt_page split: if_splits)

lemma getLikedVideos_sorted:
  "fst (getLikedVideos uid s) = Inr (c, APIResponse c' d m) \<Longrightarrow>
   sorted_wrt (descending lv_createdAt) d"
  by (auto simp: getLikedVideos_def sorted_descending)

lemma strLe_total: "strLe a b \<or> strLe b a"
  by (induction a b rule: strLe.induct) auto

lemma strLe_trans: "strLe a b \<Longrightarrow> strLe b c \<Longrightarrow> strLe a c"
proof (induction a b arbitrary: c rule: strLe.induct)
  case (1 uu)
  then show ?case by simp
next
  case (2 uv uw)
  then show ?case by simp
next
  case (3 x xs y ys)
  then show ?case by (cases c) auto
qed


lemma bsonLe_total: "bsonLe a b \<or> bsonLe b a"
  by (cases a; cases b) (simp_all add: strLe_total linear)

lemma bsonLe_trans: "bsonLe a b \<Longrightarrow> bsonLe b c \<Longrightarrow> bsonLe a c"
  by (cases a; cases b; cases c; simp split: if_splits) (erule (1) strLe_trans)+


lemma sortOptions_shape:
  "sortOptions sortBy sortType = descending v_createdAt
   \<or> sortOptions sortBy sortType =
       (\<lambda>a b. bsonLe (videoField (the sortBy) a) (videoField (the sortBy) b))
   \<or> sortOptions sortBy sortType =
       (\<lambda>a b. bsonLe (videoField (the sortBy) b) (videoField (the sortBy) a))"
  by (simp add: sortOptions_def)

lemma sortOptions_total: "sortOptions sortBy sortType a b \<or> sortOptions sortBy sortType b a"
  using sortOptions_shape[of sortBy sortType]
  by (elim disjE) (simp_all add: descending_def bsonLe_total linear)

lemma sortOptions_trans:
  assumes "sortOptions sortBy sortType a b" "sortOptions sortBy sortType b c"
  shows "sortOptions sortBy sortType a c"
  using sortOptions_shape[of sortBy sortType]
proof (elim disjE)
  assume "sortOptions sortBy sortType = descending v_createdAt"
  with assms show ?thesis by (simp add: descending_def)
next
  assume "sortOptions sortBy sortType =
       (\<lambda>a b. bsonLe (videoField (the sortBy) a) (videoField (the sortBy) b))"
  with assms show ?thesis by (simp add: bsonLe_trans[of _ "videoField (the sortBy) b"])
next
  assume "sortOptions sortBy sortType =
       (\<lambda>a b. bsonLe (videoField (the sortBy) b) (videoField (the sortBy) a))"
  with assms show ?thesis by (simp add: bsonLe_trans[of _ "videoField (the sortBy) b"])
qed

lemma sorted_sortOptions:
  "sorted_wrt (sortOptions sortBy sortType) (sortStage (sortOptions sortBy sortType) xs)"
  by (rule sorted_wrt_sortStage) (rule sortOptions_total, erule (1) sortOptions_trans)

lemma getAllVideos_sorted:
  assumes "fst (getAllVideos e page limit query sortBy sortType userId s) =
     Inr (c, APIResponse c' d m)"
  shows "sorted_wrt (\<lambda>a b. sortOptions sortBy sortType (vj_video a) (vj_video b)) (docs d)"
proof -
  have "sorted_wrt (\<lambda>a b. sortOptions sortBy sortType (vj_video a) (vj_video b))
      (map (joinOwner s) (sortStage (sortOptions sortBy sortType) xs))" for xs
    using sorted_sortOptions[of sortBy sortType xs]
    by (simp add: sorted_wrt_map joinOwner_def)
  then have "sorted_wrt (\<lambda>a b. sortOptions sortBy sortType (vj_video a) (vj_video b))
      (docs (aggregatePaginate
         (map (joinOwner s) (sortStage (sortOptions sortBy sortType) xs)) page limit))" for xs
    by (rule sorted_wrt_page)
  moreover from assms obtain xs where
    "d = aggregatePaginate (map (joinOwner s) (sortStage (sortOptions sortBy sortType) xs))
           page limit"
    by (auto simp: getAllVideos_def Let_def split: if_splits)
  ultimately show ?thesis by simp
qed


lemma not_blank_letters:
  "\<not> blank (Some ''a'')" "\<not> blank (Some ''b'')" "\<not> blank (Some ''x'')" "\<not> blank (Some ''y'')"
  by (simp_all add: blank_def trim_def isWhiteSpace_def)

lemma busyStore_eq:
  "busyStore =
     \<lparr>users = [], subscriptions = [],
      tweets =
        [\<lparr>t_id = ObjectId idThree, t_content = ''x'', t_owner = alice, t_createdAt = 3, t_updatedAt = 3\<rparr>,
         \<lparr>t_id = ObjectId idFour, t_content = ''y'', t_owner = alice, t_createdAt = 4, t_updatedAt = 4\<rparr>],
      playlists =
        [\<lparr>p_id = ObjectId idOne, p_name = ''a'', p_description = [], p_owner = alice, p_videos = [],
          p_createdAt = 1, p_updatedAt = 1\<rparr>,
         \<lparr>p_id = ObjectId idTwo, p_name = ''b'', p_description = [], p_owner = alice, p_videos = [],
          p_createdAt = 2, p_updatedAt = 2\<rparr>],
      likes = [], comments = [], videos = []\<rparr>"
  by (simp add: busyStore_def createTweet_def createPlaylist_def not_blank_letters create_def
      sampleEnv_sel emptyStore_def orElse_def)

text \<open>
  C6, at the failing input. \<open>getUserPlaylists\<close> has no sort stage: for a user whose
  playlist \<open>a\<close> was created before playlist \<open>b\<close> it lists \<open>a\<close> first, the earlier
  creation time first. \<open>getUserTweets\<close>, on the same store, lists the later tweet first.
\<close>

theorem user_playlists_storage_order:
  "fst (getUserPlaylists (sampleEnv idSix 5) aliceId busyStore) =
     Inr (200, APIResponse 200
       [\<lparr>ps_id = ObjectId idOne, ps_name = ''a'', ps_description = [], ps_totalVideos = 0,
         ps_totalViews = 0, ps_createdAt = 1, ps_updatedAt = 1\<rparr>,
        \<lparr>ps_id = ObjectId idTwo, ps_name = ''b'', ps_description = [], ps_totalVideos = 0,
         ps_totalViews = 0, ps_createdAt = 2, ps_updatedAt = 2\<rparr>]
       ''User playlists fetched successfully'')
   \<and> fst (getUserTweets (sampleEnv idSix 5) aliceId busyStore) =
     Inr (200, APIResponse 200
       [\<lparr>tv_id = ObjectId idFour, tv_content = ''y'', tv_owner = None, tv_likesCount = 0,
         tv_createdAt = 4\<rparr>,
        \<lparr>tv_id = ObjectId idThree, tv_content = ''x'', tv_owner = None, tv_likesCount = 0,
         tv_createdAt = 3\<rparr>]
       ''Tweets fetched successfully'')"
  by (simp add: busyStore_eq getUserPlaylists_def getUserTweets_def sampleEnv_sel hex_ids hexCast_ids
      playlistSummary_def lookupVideos_def tweetView_def lookupOwner_def first_def
      sortStage_def descending_def)

end
